theory Spec2Isabelle
  imports Main "HOL-Library.Sublist"
begin

text \<open>
  A model of \<open>index.js\<close>, the REST backend of a school website: the login route, the
  token middleware, the two helpers that talk to the storage bucket, and the get-by-id,
  update and delete routes of the content tables.

  The handlers are functions from the request and the world (tables, bucket, clock,
  log of blob helper calls) to an outcome and the new world.  What the handlers call
  but do not define is modelled by its documented behaviour:
  \<^item> Prisma: an \<open>id\<close> that does not fit the 32-bit column is rejected; \<open>findUnique\<close>
    gives \<open>null\<close> for a missing row; \<open>update\<close> and \<open>delete\<close> reject when the row is
    missing; a field that is \<open>undefined\<close> in the data of an update is left alone; an
    invalid \<open>Date\<close> is rejected.
  \<^item> The storage client and service: \<open>upload\<close> puts the key into the request URL,
    \<open>remove\<close> into the request body; both answer with an error or change the bucket;
    \<open>getPublicUrl\<close> gives the URI-encoded public address of a key.
  \<^item> jsonwebtoken and bcrypt: see the sections on tokens and on the environment.
  \<^item> Express: a response that is sent, or an asynchronous handler that rejects.
\<close>

section \<open>JavaScript strings and the URI builtins\<close>

text \<open>
  A JavaScript string is modelled by the bytes of its UTF-8 encoding, one \<open>char\<close> per
  byte.  \<open>encodeURI\<close> keeps the reserved and unreserved ASCII characters and writes every
  other byte as \<open>%XX\<close> with upper-case hexadecimal digits.
\<close>

definition hex_char :: "nat \<Rightarrow> char" where
  "hex_char n = (if n < 10 then char_of (48 + n) else char_of (55 + n))"

definition hex_val :: "char \<Rightarrow> nat option" where
  "hex_val c =
     (let n = (of_char c :: nat) in
      if 48 \<le> n \<and> n \<le> 57 then Some (n - 48)
      else if 65 \<le> n \<and> n \<le> 70 then Some (n - 55)
      else if 97 \<le> n \<and> n \<le> 102 then Some (n - 87)
      else None)"

definition uri_keep :: "char \<Rightarrow> bool" where
  "uri_keep c =
     (let n = (of_char c :: nat) in
      (65 \<le> n \<and> n \<le> 90) \<or> (97 \<le> n \<and> n \<le> 122) \<or> (48 \<le> n \<and> n \<le> 57) \<or>
      c \<in> set '';/?:@&=+$,#-_.!~*()'' \<or> n = 39)"

definition encode_byte :: "char \<Rightarrow> string" where
  "encode_byte c =
     (if uri_keep c then [c]
      else [CHR ''%'', hex_char ((of_char c :: nat) div 16), hex_char ((of_char c :: nat) mod 16)])"

definition encodeURI :: "string \<Rightarrow> string" where
  "encodeURI s = concat (map encode_byte s)"

datatype exn =
    Error string
  | URIError
  | RecordNotFound
  | ValidationError
  | ValueOutOfRange
  | JsonWebTokenError
  | TokenExpiredError
  | IllegalArguments

text \<open>
  \<open>decodeURIComponent\<close> in two passes.  The first turns every \<open>%XX\<close> into the byte it
  names (\<open>Esc\<close>) and leaves every other character as it is (\<open>Lit\<close>); a percent sign
  that is not followed by two hexadecimal digits is an error.  The second checks the
  escaped bytes: one below 128 stands for itself, one from 128 on must start a run of
  two, three or four escaped bytes that is the UTF-8 encoding of one code point (not
  overlong, not a surrogate, at most U+10FFFF).  Every error is a \<open>URIError\<close>.
\<close>

datatype item = Lit char | Esc char

fun unescape :: "string \<Rightarrow> item list option" where
  "unescape [] = Some []"
| "unescape (c # cs) =
     (if c = CHR ''%'' then
        (case cs of
           h # l # rest \<Rightarrow>
             (case (hex_val h, hex_val l) of
                (Some a, Some b) \<Rightarrow> map_option ((#) (Esc (char_of (16 * a + b)))) (unescape rest)
              | _ \<Rightarrow> None)
         | _ \<Rightarrow> None)
      else map_option ((#) (Lit c)) (unescape cs))"

definition byte :: "char \<Rightarrow> nat" where
  "byte c = of_char c"

definition cont :: "char \<Rightarrow> bool" where
  "cont c = (128 \<le> byte c \<and> byte c \<le> 191)"

definition seq2 :: "char \<Rightarrow> char \<Rightarrow> bool" where
  "seq2 a b = (194 \<le> byte a \<and> byte a \<le> 223 \<and> cont b)"

definition seq3 :: "char \<Rightarrow> char \<Rightarrow> char \<Rightarrow> bool" where
  "seq3 a b c =
     (224 \<le> byte a \<and> byte a \<le> 239 \<and> cont b \<and> cont c \<and>
      (if byte a = 224 then 160 \<le> byte b else if byte a = 237 then byte b \<le> 159 else True))"

definition seq4 :: "char \<Rightarrow> char \<Rightarrow> char \<Rightarrow> char \<Rightarrow> bool" where
  "seq4 a b c d =
     (240 \<le> byte a \<and> byte a \<le> 244 \<and> cont b \<and> cont c \<and> cont d \<and>
      (if byte a = 240 then 144 \<le> byte b else if byte a = 244 then byte b \<le> 143 else True))"

fun utf8_items :: "item list \<Rightarrow> string option" where
  "utf8_items [] = Some []"
| "utf8_items (Lit c # r) = map_option ((#) c) (utf8_items r)"
| "utf8_items (Esc a # r) =
     (if byte a < 128 then map_option ((#) a) (utf8_items r)
      else if byte a < 224 then
        (case r of
           Esc b # r' \<Rightarrow>
             (if seq2 a b then map_option (\<lambda>t. a # b # t) (utf8_items r') else None)
         | _ \<Rightarrow> None)
      else if byte a < 240 then
        (case r of
           Esc b # Esc c # r' \<Rightarrow>
             (if seq3 a b c then map_option (\<lambda>t. a # b # c # t) (utf8_items r') else None)
         | _ \<Rightarrow> None)
      else
        (case r of
           Esc b # Esc c # Esc d # r' \<Rightarrow>
             (if seq4 a b c d then map_option (\<lambda>t. a # b # c # d # t) (utf8_items r') else None)
         | _ \<Rightarrow> None))"

definition decodeURIComponent :: "string \<Rightarrow> exn + string" where
  "decodeURIComponent s =
     (case unescape s of
        None \<Rightarrow> Inl URIError
      | Some items \<Rightarrow>
          (case utf8_items items of None \<Rightarrow> Inl URIError | Some t \<Rightarrow> Inr t))"



text \<open>
  \<open>s.replace(pat, "")\<close> with a string pattern removes the first occurrence of the pattern
  and leaves the string alone when there is none.
\<close>

fun replace_first :: "string \<Rightarrow> string \<Rightarrow> string" where
  "replace_first pat [] = []"
| "replace_first pat (c # cs) =
     (if prefix pat (c # cs) then drop (length pat) (c # cs)
      else c # replace_first pat cs)"

text \<open>The decimal numeral that a template literal prints for a non-negative integer.\<close>

function decimal :: "nat \<Rightarrow> string" where
  "decimal n =
     (if n < 10 then [char_of (48 + n)]
      else decimal (n div 10) @ [char_of (48 + n mod 10)])"
  by pat_completeness auto
termination
  by (relation "measure id") auto

declare decimal.simps [simp del]

section \<open>Data model\<close>

text \<open>
  One record per table of \<open>prisma/schema.prisma\<close>; the \<open>id\<close> column is the key of the
  table's map.  A nullable column (\<open>String?\<close>) is a \<open>string option\<close>, \<open>None\<close> being
  \<open>null\<close>; a \<open>DateTime\<close> is its number of milliseconds since the epoch.
\<close>

record admin_row =
  admin_id :: int
  admin_username :: string
  admin_password :: string

record hero_row =
  hero_welcomeMessage :: string
  hero_description :: string
  hero_image :: string

record news_row =
  news_title :: string
  news_description :: string
  news_image :: "string option"
  news_publishedAt :: int

record extracurricular_row =
  ex_name :: string
  ex_description :: string
  ex_image :: "string option"

record kalender_row =
  kal_title :: string
  kal_file :: string

record alumni_row =
  al_title :: string
  al_image :: "string option"

record galeri_row =
  gal_title :: string
  gal_image :: string

record sarana_row =
  sar_name :: string
  sar_description :: string
  sar_image :: "string option"

record headmaster_row =
  hm_message :: string
  hm_description :: string
  hm_image :: string
  hm_headmasterName :: string

record sejarah_row =
  sej_period :: string
  sej_text :: string
  sej_image :: "string option"

record visimisi_row =
  vm_visi :: string
  vm_misi :: "string list"

record contact_row =
  c_name :: string
  c_email :: string
  c_phone :: string
  c_message :: string
  c_createdAt :: int

datatype row =
    NewsRow int news_row
  | HeroRow int hero_row
  | ExtracurricularRow int extracurricular_row
  | KalenderRow int kalender_row
  | AlumniRow int alumni_row
  | GaleriRow int galeri_row
  | SaranaRow int sarana_row
  | HeadmasterRow int headmaster_row
  | SejarahRow int sejarah_row
  | VisiMisiRow int visimisi_row
  | ContactRow int contact_row

text \<open>The file that multer hands to a route as \<open>req.file\<close>.\<close>

record upload_file =
  originalname :: string
  buffer :: string
  mimetype :: string

text \<open>
  The calls a handler makes to the two blob helpers, in order: \<open>UploadCall f\<close> for
  \<open>uploadToSupabase(f)\<close> and \<open>DeleteCall u\<close> for \<open>deleteFromSupabase(u)\<close>.
\<close>

datatype blob_call = UploadCall upload_file | DeleteCall string

text \<open>
  The world a request runs in: the tables, the storage bucket (key to buffer and content
  type), whether the storage service answers an upload or a removal with an error, the
  reading of \<open>Date.now()\<close>, and the log of blob helper calls.
\<close>

record world =
  admin_tbl :: "admin_row list"
  hero_tbl :: "int \<rightharpoonup> hero_row"
  news_tbl :: "int \<rightharpoonup> news_row"
  extracurricular_tbl :: "int \<rightharpoonup> extracurricular_row"
  kalender_tbl :: "int \<rightharpoonup> kalender_row"
  alumni_tbl :: "int \<rightharpoonup> alumni_row"
  galeri_tbl :: "int \<rightharpoonup> galeri_row"
  sarana_tbl :: "int \<rightharpoonup> sarana_row"
  headmaster_tbl :: "int \<rightharpoonup> headmaster_row"
  sejarah_tbl :: "int \<rightharpoonup> sejarah_row"
  visimisi_tbl :: "int \<rightharpoonup> visimisi_row"
  contact_tbl :: "int \<rightharpoonup> contact_row"
  bucket :: "string \<rightharpoonup> string \<times> string"
  upload_fault :: bool
  remove_fault :: bool
  clock :: nat
  calls :: "blob_call list"

subsection \<open>Tokens\<close>

text \<open>
  A JSON web token is modelled by what it carries: the payload and the secret whose
  signature it bears.  \<open>jwt_encode\<close> and \<open>jwt_parse\<close> stand for the compact
  serialisation and its reading; \<open>jwt_parse\<close> gives \<open>None\<close> on a malformed string.
\<close>

record jwt_payload =
  jwt_id :: int
  jwt_iat :: nat
  jwt_exp :: "nat option"

record signed_token =
  tok_secret :: string
  tok_payload :: jwt_payload

text \<open>
  The configuration read from the environment (\<open>SUPABASE_URL\<close>, \<open>SECRET_KEY\<close>) and the
  library functions the handlers call but do not define: bcrypt's comparison of a
  password with a hash, the token serialisation, and the parsing of a date string by
  \<open>new Date(s)\<close> (\<open>None\<close> for an invalid date).
\<close>

record env =
  SUPABASE_URL :: string
  SECRET_KEY :: string
  bcrypt_compare :: "string \<Rightarrow> string \<Rightarrow> bool"
  jwt_encode :: "signed_token \<Rightarrow> string"
  jwt_parse :: "string \<Rightarrow> signed_token option"
  Date_parse :: "string \<Rightarrow> int option"

subsection \<open>Requests and responses\<close>

text \<open>
  \<open>req_id\<close> is \<open>parseInt(req.params.id)\<close>, an integer of any size (a request whose \<open>id\<close>
  is not a number is not modelled); \<open>req_body\<close> holds the text
  fields of the body (an absent field is \<open>undefined\<close>, here \<open>None\<close>), \<open>req_misi\<close> the
  \<open>misi\<close> array of a visi-misi body, \<open>req_file\<close> the attached file and
  \<open>req_authorization\<close> the Authorization header.
\<close>

record request =
  req_id :: int
  req_body :: "string \<rightharpoonup> string"
  req_misi :: "string list option"
  req_file :: "upload_file option"
  req_authorization :: "string option"

datatype body =
    NoBody
  | JsonNull
  | JsonRow row
  | JsonError string
  | JsonErrorDetails string exn
  | JsonMessage string
  | JsonToken string

datatype response = Response nat body

text \<open>
  What a route handler does with a request: it sends a response, or its promise rejects
  with an exception that no \<open>try\<close> block of the handler catches.
\<close>

datatype outcome = Sent response | Rejected exn

datatype 'a middleware = Respond response | Next 'a

datatype js_date = ValidDate int | InvalidDate

section \<open>Helpers of the JavaScript semantics\<close>

text \<open>A string value in a condition: \<open>null\<close> and the empty string are falsy.\<close>

definition truthy :: "string option \<Rightarrow> bool" where
  "truthy v = (case v of None \<Rightarrow> False | Some s \<Rightarrow> s \<noteq> [])"

definition js_or :: "string option \<Rightarrow> string option \<Rightarrow> string option" where
  "js_or a b = (if truthy a then a else b)"

text \<open>\<open>s.split(sep)\<close> for a one-character separator.\<close>

fun split_on :: "char \<Rightarrow> string \<Rightarrow> string list" where
  "split_on sep [] = [[]]"
| "split_on sep (c # cs) =
     (if c = sep then [] # split_on sep cs
      else (case split_on sep cs of
              [] \<Rightarrow> [[c]]
            | p # ps \<Rightarrow> (c # p) # ps))"

definition index_opt :: "'a list \<Rightarrow> nat \<Rightarrow> 'a option" where
  "index_opt xs i = (if i < length xs then Some (xs ! i) else None)"

definition new_Date :: "env \<Rightarrow> string option \<Rightarrow> js_date" where
  "new_Date E v =
     (case v of
        None \<Rightarrow> InvalidDate
      | Some s \<Rightarrow> (case Date_parse E s of None \<Rightarrow> InvalidDate | Some t \<Rightarrow> ValidDate t))"

text \<open>
  In the \<open>data\<close> of a Prisma update a field that is \<open>undefined\<close> is left as it is.
\<close>

definition upd :: "string option \<Rightarrow> string \<Rightarrow> string" where
  "upd v old = (case v of None \<Rightarrow> old | Some x \<Rightarrow> x)"

text \<open>
  The \<open>id\<close> columns are \<open>Int\<close>, a 32-bit signed integer, while \<open>parseInt\<close> has no
  such bound: Prisma rejects a query whose \<open>id\<close> does not fit the column, before it
  looks at the table.  Otherwise \<open>findUnique\<close> gives the row or \<open>null\<close>.
\<close>

definition int4 :: "int \<Rightarrow> bool" where
  "int4 i = (- 2147483648 \<le> i \<and> i \<le> 2147483647)"

definition findUnique :: "(int \<rightharpoonup> 'a) \<Rightarrow> int \<Rightarrow> exn + 'a option" where
  "findUnique tbl i = (if int4 i then Inr (tbl i) else Inl ValueOutOfRange)"

text \<open>
  \<open>update\<close> and \<open>delete\<close> work on the row with the given \<open>id\<close> and reject when there
  is none.
\<close>

definition findUniqueOrThrow :: "(int \<rightharpoonup> 'a) \<Rightarrow> int \<Rightarrow> exn + 'a" where
  "findUniqueOrThrow tbl i =
     (case findUnique tbl i of
        Inl e \<Rightarrow> Inl e
      | Inr None \<Rightarrow> Inl RecordNotFound
      | Inr (Some r) \<Rightarrow> Inr r)"

section \<open>Blob store adapter\<close>

definition BUCKET_NAME :: string where
  "BUCKET_NAME = ''uploads''"

text \<open>
  The storage client keeps as its base the configured URL without a trailing slash
  (\<open>stripTrailingSlash\<close>).
\<close>

definition client_base :: "string \<Rightarrow> string" where
  "client_base u = (if u \<noteq> [] \<and> last u = CHR ''/'' then butlast u else u)"

text \<open>
  An upload is a request to \<open>base/storage/v1/object/bucket/path\<close> with the path written
  into the URL as it is, at its end.  Reading a URL starts by dropping the spaces and
  control characters at its end and every tab and line break inside it (\<open>url_input\<close>).
  Then a \<open>#\<close> starts the fragment and a \<open>?\<close> the query, so the path the service sees
  ends there, and the service percent-decodes that path (a malformed escape is a bad
  request).  \<open>request_key\<close> is the key the service files the object under.  (Path
  separators are not followed further: multer hands over a base name, without \<open>/\<close> or
  \<open>\\\<close>.)
\<close>

definition url_input :: "string \<Rightarrow> string" where
  "url_input s =
     filter (\<lambda>c. c \<noteq> CHR 0x09 \<and> c \<noteq> CHR 0x0A \<and> c \<noteq> CHR 0x0D)
       (rev (dropWhile (\<lambda>c. byte c \<le> 32) (rev s)))"

definition request_key :: "string \<Rightarrow> exn + string" where
  "request_key path =
     decodeURIComponent
       (takeWhile (\<lambda>c. c \<noteq> CHR ''#'' \<and> c \<noteq> CHR ''?'') (url_input path))"

text \<open>
  The storage service: an upload without \<open>upsert\<close> is refused when the key is taken; a
  removal names its keys in the request body, as they are, and the removal of a key
  that is not there is no error.  Each returns whether the service answered with an error.
\<close>

definition storage_upload :: "string \<Rightarrow> upload_file \<Rightarrow> world \<Rightarrow> bool \<times> world" where
  "storage_upload path f w =
     (if upload_fault w then (True, w)
      else (case request_key path of
              Inl e \<Rightarrow> (True, w)
            | Inr key \<Rightarrow>
                (if bucket w key \<noteq> None then (True, w)
                 else (False, w\<lparr>bucket := (bucket w)(key \<mapsto> (buffer f, mimetype f))\<rparr>))))"

definition storage_remove :: "string \<Rightarrow> world \<Rightarrow> bool \<times> world" where
  "storage_remove key w =
     (if remove_fault w then (True, w)
      else (False, w\<lparr>bucket := (bucket w)(key := None)\<rparr>))"

text \<open>
  The prefix that \<open>deleteFromSupabase\<close> strips, built from the configured URL as it is.
\<close>

definition public_prefix :: "env \<Rightarrow> string" where
  "public_prefix E =
     SUPABASE_URL E @ ''/storage/v1/object/public/'' @ BUCKET_NAME @ ''/''"

text \<open>
  The client's \<open>getPublicUrl\<close>: the object's public address under the client's base,
  URI-encoded (which is why \<open>deleteFromSupabase\<close> decodes the URL first, ``to handle
  spaces'').
\<close>

definition getPublicUrl :: "env \<Rightarrow> string \<Rightarrow> string" where
  "getPublicUrl E path =
     encodeURI
       (client_base (SUPABASE_URL E) @ ''/storage/v1/object/public/'' @ BUCKET_NAME @ ''/'' @ path)"

definition uniqueFilename :: "nat \<Rightarrow> upload_file \<Rightarrow> string" where
  "uniqueFilename now f = decimal now @ ''-'' @ originalname f"

definition uploadToSupabase :: "env \<Rightarrow> upload_file \<Rightarrow> world \<Rightarrow> (exn + string) \<times> world" where
  "uploadToSupabase E f w =
     (let key = uniqueFilename (clock w) f;
          w1 = w\<lparr>calls := calls w @ [UploadCall f]\<rparr>
      in case storage_upload key f w1 of
           (True, w2) \<Rightarrow> (Inl (Error ''Failed to upload file to Supabase''), w2)
         | (False, w2) \<Rightarrow> (Inr (getPublicUrl E key), w2))"

definition filePath :: "env \<Rightarrow> string \<Rightarrow> exn + string" where
  "filePath E fileUrl =
     (case decodeURIComponent fileUrl of
        Inl e \<Rightarrow> Inl e
      | Inr decodedFileUrl \<Rightarrow> Inr (replace_first (public_prefix E) decodedFileUrl))"

definition deleteFromSupabase :: "env \<Rightarrow> string \<Rightarrow> world \<Rightarrow> (exn + unit) \<times> world" where
  "deleteFromSupabase E fileUrl w =
     (let w1 = w\<lparr>calls := calls w @ [DeleteCall fileUrl]\<rparr>
      in case filePath E fileUrl of
           Inl e \<Rightarrow> (Inl e, w1)
         | Inr path \<Rightarrow>
             (case storage_remove path w1 of
                (True, w2) \<Rightarrow> (Inl (Error ''Failed to delete file from Supabase''), w2)
              | (False, w2) \<Rightarrow> (Inr (), w2)))"

section \<open>Route handlers\<close>

text \<open>
  The \<open>catch\<close> block of a handler answers 500 with its own message and the message of
  the exception.
\<close>

definition failure :: "string \<Rightarrow> exn \<Rightarrow> outcome" where
  "failure msg e = Sent (Response 500 (JsonErrorDetails msg e))"

definition not_found :: "string \<Rightarrow> outcome" where
  "not_found msg = Sent (Response 404 (JsonError msg))"

definition ok_row :: "row \<Rightarrow> outcome" where
  "ok_row r = Sent (Response 200 (JsonRow r))"

text \<open>
  \<open>if (existing.image) { await deleteFromSupabase(existing.image); }\<close>
\<close>

definition delete_if_set :: "env \<Rightarrow> string option \<Rightarrow> world \<Rightarrow> (exn + unit) \<times> world" where
  "delete_if_set E old w =
     (case old of
        None \<Rightarrow> (Inr (), w)
      | Some u \<Rightarrow> (if truthy (Some u) then deleteFromSupabase E u w else (Inr (), w)))"

text \<open>
  The block every update handler of a resource with a media field runs,
  \<^verbatim>\<open>
  if (req.file) {
    newImage = await uploadToSupabase(req.file);
    if (existing.image) { await deleteFromSupabase(existing.image); }
  }
  \<close>
  with \<open>init\<close> the value of \<open>newImage\<close> before the block (\<open>null\<close> in most handlers, the
  existing media value in kalender, galeri and sejarah); the result is its value after.
\<close>

definition upload_replacing ::
  "env \<Rightarrow> upload_file option \<Rightarrow> string option \<Rightarrow> string option \<Rightarrow> world
     \<Rightarrow> (exn + string option) \<times> world" where
  "upload_replacing E file init old w =
     (case file of
        None \<Rightarrow> (Inr init, w)
      | Some f \<Rightarrow>
          (case uploadToSupabase E f w of
             (Inl e, w1) \<Rightarrow> (Inl e, w1)
           | (Inr url, w1) \<Rightarrow>
               (case delete_if_set E old w1 of
                  (Inl e, w2) \<Rightarrow> (Inl e, w2)
                | (Inr u, w2) \<Rightarrow> (Inr (Some url), w2))))"

subsection \<open>News\<close>

definition get_news :: "env \<Rightarrow> request \<Rightarrow> world \<Rightarrow> outcome \<times> world" where
  "get_news E req w =
     (case findUnique (news_tbl w) (req_id req) of
        Inl e \<Rightarrow> (Rejected e, w)
      | Inr None \<Rightarrow> (Sent (Response 200 JsonNull), w)
      | Inr (Some newsItem) \<Rightarrow> (ok_row (NewsRow (req_id req) newsItem), w))"

definition put_news :: "env \<Rightarrow> request \<Rightarrow> world \<Rightarrow> outcome \<times> world" where
  "put_news E req w =
     (case findUnique (news_tbl w) (req_id req) of
        Inl e \<Rightarrow> (failure ''Failed to update news'' e, w)
      | Inr None \<Rightarrow> (not_found ''News not found'', w)
      | Inr (Some existingNews) \<Rightarrow>
          (case upload_replacing E (req_file req) None (news_image existingNews) w of
             (Inl e, w1) \<Rightarrow> (failure ''Failed to update news'' e, w1)
           | (Inr newImage, w1) \<Rightarrow>
               (case new_Date E (req_body req ''publishedAt'') of
                  InvalidDate \<Rightarrow> (failure ''Failed to update news'' ValidationError, w1)
                | ValidDate publishedAt \<Rightarrow>
                    (let updatedNews =
                       \<lparr>news_title = upd (req_body req ''title'') (news_title existingNews),
                        news_description =
                          upd (req_body req ''description'') (news_description existingNews),
                        news_image = js_or newImage (news_image existingNews),
                        news_publishedAt = publishedAt\<rparr>
                     in (ok_row (NewsRow (req_id req) updatedNews),
                         w1\<lparr>news_tbl := (news_tbl w1)(req_id req \<mapsto> updatedNews)\<rparr>)))))"

definition delete_news :: "env \<Rightarrow> request \<Rightarrow> world \<Rightarrow> outcome \<times> world" where
  "delete_news E req w =
     (case findUnique (news_tbl w) (req_id req) of
        Inl e \<Rightarrow> (failure ''Failed to delete news'' e, w)
      | Inr None \<Rightarrow> (not_found ''News not found'', w)
      | Inr (Some existingNews) \<Rightarrow>
          (case delete_if_set E (news_image existingNews) w of
             (Inl e, w1) \<Rightarrow> (failure ''Failed to delete news'' e, w1)
           | (Inr u, w1) \<Rightarrow>
               (Sent (Response 204 NoBody),
                w1\<lparr>news_tbl := (news_tbl w1)(req_id req := None)\<rparr>)))"

subsection \<open>Hero\<close>

definition put_hero :: "env \<Rightarrow> request \<Rightarrow> world \<Rightarrow> outcome \<times> world" where
  "put_hero E req w =
     (case findUnique (hero_tbl w) (req_id req) of
        Inl e \<Rightarrow> (failure ''Failed to update hero'' e, w)
      | Inr None \<Rightarrow> (not_found ''Hero not found'', w)
      | Inr (Some existingHero) \<Rightarrow>
          (case upload_replacing E (req_file req) None (Some (hero_image existingHero)) w of
             (Inl e, w1) \<Rightarrow> (failure ''Failed to update hero'' e, w1)
           | (Inr newImage, w1) \<Rightarrow>
               (case js_or newImage (Some (hero_image existingHero)) of
                  None \<Rightarrow> (failure ''Failed to update hero'' ValidationError, w1)
                | Some img \<Rightarrow>
                    (let updatedHero =
                       \<lparr>hero_welcomeMessage =
                          upd (req_body req ''welcomeMessage'') (hero_welcomeMessage existingHero),
                        hero_description =
                          upd (req_body req ''description'') (hero_description existingHero),
                        hero_image = img\<rparr>
                     in (ok_row (HeroRow (req_id req) updatedHero),
                         w1\<lparr>hero_tbl := (hero_tbl w1)(req_id req \<mapsto> updatedHero)\<rparr>)))))"

subsection \<open>Extracurriculars\<close>

definition get_extracurricular :: "env \<Rightarrow> request \<Rightarrow> world \<Rightarrow> outcome \<times> world" where
  "get_extracurricular E req w =
     (case findUnique (extracurricular_tbl w) (req_id req) of
        Inl e \<Rightarrow> (Rejected e, w)
      | Inr None \<Rightarrow> (Sent (Response 200 JsonNull), w)
      | Inr (Some extracurricular) \<Rightarrow>
          (ok_row (ExtracurricularRow (req_id req) extracurricular), w))"

definition put_extracurricular :: "env \<Rightarrow> request \<Rightarrow> world \<Rightarrow> outcome \<times> world" where
  "put_extracurricular E req w =
     (case findUnique (extracurricular_tbl w) (req_id req) of
        Inl e \<Rightarrow> (failure ''Failed to update extracurricular'' e, w)
      | Inr None \<Rightarrow> (not_found ''Extracurricular not found'', w)
      | Inr (Some existingExtracurricular) \<Rightarrow>
          (case upload_replacing E (req_file req) None (ex_image existingExtracurricular) w of
             (Inl e, w1) \<Rightarrow> (failure ''Failed to update extracurricular'' e, w1)
           | (Inr newImage, w1) \<Rightarrow>
               (let updatedExtracurricular =
                  \<lparr>ex_name = upd (req_body req ''name'') (ex_name existingExtracurricular),
                   ex_description =
                     upd (req_body req ''description'') (ex_description existingExtracurricular),
                   ex_image = js_or newImage (ex_image existingExtracurricular)\<rparr>
                in (ok_row (ExtracurricularRow (req_id req) updatedExtracurricular),
                    w1\<lparr>extracurricular_tbl :=
                         (extracurricular_tbl w1)(req_id req \<mapsto> updatedExtracurricular)\<rparr>))))"

definition delete_extracurricular :: "env \<Rightarrow> request \<Rightarrow> world \<Rightarrow> outcome \<times> world" where
  "delete_extracurricular E req w =
     (case findUnique (extracurricular_tbl w) (req_id req) of
        Inl e \<Rightarrow> (failure ''Failed to delete extracurricular'' e, w)
      | Inr None \<Rightarrow> (not_found ''Extracurricular not found'', w)
      | Inr (Some existingExtracurricular) \<Rightarrow>
          (case delete_if_set E (ex_image existingExtracurricular) w of
             (Inl e, w1) \<Rightarrow> (failure ''Failed to delete extracurricular'' e, w1)
           | (Inr u, w1) \<Rightarrow>
               (Sent (Response 204 NoBody),
                w1\<lparr>extracurricular_tbl := (extracurricular_tbl w1)(req_id req := None)\<rparr>)))"

subsection \<open>Kalender\<close>

definition put_kalender :: "env \<Rightarrow> request \<Rightarrow> world \<Rightarrow> outcome \<times> world" where
  "put_kalender E req w =
     (case findUnique (kalender_tbl w) (req_id req) of
        Inl e \<Rightarrow> (failure ''Failed to update kalender'' e, w)
      | Inr None \<Rightarrow> (not_found ''Kalender event not found'', w)
      | Inr (Some existingKalender) \<Rightarrow>
          (case upload_replacing E (req_file req) (Some (kal_file existingKalender))
                  (Some (kal_file existingKalender)) w of
             (Inl e, w1) \<Rightarrow> (failure ''Failed to update kalender'' e, w1)
           | (Inr None, w1) \<Rightarrow> (failure ''Failed to update kalender'' ValidationError, w1)
           | (Inr (Some newFile), w1) \<Rightarrow>
               (let updatedKalender =
                  \<lparr>kal_title = upd (req_body req ''title'') (kal_title existingKalender),
                   kal_file = newFile\<rparr>
                in (ok_row (KalenderRow (req_id req) updatedKalender),
                    w1\<lparr>kalender_tbl := (kalender_tbl w1)(req_id req \<mapsto> updatedKalender)\<rparr>))))"

subsection \<open>Alumni\<close>

definition get_alumni :: "env \<Rightarrow> request \<Rightarrow> world \<Rightarrow> outcome \<times> world" where
  "get_alumni E req w =
     (case findUnique (alumni_tbl w) (req_id req) of
        Inl e \<Rightarrow> (Rejected e, w)
      | Inr None \<Rightarrow> (Sent (Response 200 JsonNull), w)
      | Inr (Some alumniItem) \<Rightarrow> (ok_row (AlumniRow (req_id req) alumniItem), w))"

definition put_alumni :: "env \<Rightarrow> request \<Rightarrow> world \<Rightarrow> outcome \<times> world" where
  "put_alumni E req w =
     (case findUnique (alumni_tbl w) (req_id req) of
        Inl e \<Rightarrow> (failure ''Failed to update alumni'' e, w)
      | Inr None \<Rightarrow> (not_found ''Alumni not found'', w)
      | Inr (Some existingAlumni) \<Rightarrow>
          (case upload_replacing E (req_file req) None (al_image existingAlumni) w of
             (Inl e, w1) \<Rightarrow> (failure ''Failed to update alumni'' e, w1)
           | (Inr newImage, w1) \<Rightarrow>
               (let updatedAlumni =
                  \<lparr>al_title = upd (req_body req ''title'') (al_title existingAlumni),
                   al_image = js_or newImage (al_image existingAlumni)\<rparr>
                in (ok_row (AlumniRow (req_id req) updatedAlumni),
                    w1\<lparr>alumni_tbl := (alumni_tbl w1)(req_id req \<mapsto> updatedAlumni)\<rparr>))))"

definition delete_alumni :: "env \<Rightarrow> request \<Rightarrow> world \<Rightarrow> outcome \<times> world" where
  "delete_alumni E req w =
     (case findUnique (alumni_tbl w) (req_id req) of
        Inl e \<Rightarrow> (failure ''Failed to delete alumni'' e, w)
      | Inr None \<Rightarrow> (not_found ''Alumni not found'', w)
      | Inr (Some existingAlumni) \<Rightarrow>
          (case delete_if_set E (al_image existingAlumni) w of
             (Inl e, w1) \<Rightarrow> (failure ''Failed to delete alumni'' e, w1)
           | (Inr u, w1) \<Rightarrow>
               (Sent (Response 204 NoBody),
                w1\<lparr>alumni_tbl := (alumni_tbl w1)(req_id req := None)\<rparr>)))"

subsection \<open>Galeri\<close>

definition get_galeri :: "env \<Rightarrow> request \<Rightarrow> world \<Rightarrow> outcome \<times> world" where
  "get_galeri E req w =
     (case findUnique (galeri_tbl w) (req_id req) of
        Inl e \<Rightarrow> (Rejected e, w)
      | Inr None \<Rightarrow> (Sent (Response 200 JsonNull), w)
      | Inr (Some galeriItem) \<Rightarrow> (ok_row (GaleriRow (req_id req) galeriItem), w))"

definition put_galeri :: "env \<Rightarrow> request \<Rightarrow> world \<Rightarrow> outcome \<times> world" where
  "put_galeri E req w =
     (case findUnique (galeri_tbl w) (req_id req) of
        Inl e \<Rightarrow> (failure ''Failed to update galeri'' e, w)
      | Inr None \<Rightarrow> (not_found ''Galeri not found'', w)
      | Inr (Some existingGaleri) \<Rightarrow>
          (case upload_replacing E (req_file req) (Some (gal_image existingGaleri))
                  (Some (gal_image existingGaleri)) w of
             (Inl e, w1) \<Rightarrow> (failure ''Failed to update galeri'' e, w1)
           | (Inr None, w1) \<Rightarrow> (failure ''Failed to update galeri'' ValidationError, w1)
           | (Inr (Some newImage), w1) \<Rightarrow>
               (let updatedGaleri =
                  \<lparr>gal_title = upd (req_body req ''title'') (gal_title existingGaleri),
                   gal_image = newImage\<rparr>
                in (ok_row (GaleriRow (req_id req) updatedGaleri),
                    w1\<lparr>galeri_tbl := (galeri_tbl w1)(req_id req \<mapsto> updatedGaleri)\<rparr>))))"

definition delete_galeri :: "env \<Rightarrow> request \<Rightarrow> world \<Rightarrow> outcome \<times> world" where
  "delete_galeri E req w =
     (case findUnique (galeri_tbl w) (req_id req) of
        Inl e \<Rightarrow> (failure ''Failed to delete galeri'' e, w)
      | Inr None \<Rightarrow> (not_found ''Galeri not found'', w)
      | Inr (Some existingGaleri) \<Rightarrow>
          (case delete_if_set E (Some (gal_image existingGaleri)) w of
             (Inl e, w1) \<Rightarrow> (failure ''Failed to delete galeri'' e, w1)
           | (Inr u, w1) \<Rightarrow>
               (Sent (Response 204 NoBody),
                w1\<lparr>galeri_tbl := (galeri_tbl w1)(req_id req := None)\<rparr>)))"

subsection \<open>Sarana\<close>

definition get_sarana :: "env \<Rightarrow> request \<Rightarrow> world \<Rightarrow> outcome \<times> world" where
  "get_sarana E req w =
     (case findUnique (sarana_tbl w) (req_id req) of
        Inl e \<Rightarrow> (Rejected e, w)
      | Inr None \<Rightarrow> (Sent (Response 200 JsonNull), w)
      | Inr (Some saranaItem) \<Rightarrow> (ok_row (SaranaRow (req_id req) saranaItem), w))"

definition put_sarana :: "env \<Rightarrow> request \<Rightarrow> world \<Rightarrow> outcome \<times> world" where
  "put_sarana E req w =
     (case findUnique (sarana_tbl w) (req_id req) of
        Inl e \<Rightarrow> (failure ''Failed to update sarana'' e, w)
      | Inr None \<Rightarrow> (not_found ''Sarana not found'', w)
      | Inr (Some existingSarana) \<Rightarrow>
          (case upload_replacing E (req_file req) None (sar_image existingSarana) w of
             (Inl e, w1) \<Rightarrow> (failure ''Failed to update sarana'' e, w1)
           | (Inr newImage, w1) \<Rightarrow>
               (let updatedSarana =
                  \<lparr>sar_name = upd (req_body req ''name'') (sar_name existingSarana),
                   sar_description =
                     upd (req_body req ''description'') (sar_description existingSarana),
                   sar_image = js_or newImage (sar_image existingSarana)\<rparr>
                in (ok_row (SaranaRow (req_id req) updatedSarana),
                    w1\<lparr>sarana_tbl := (sarana_tbl w1)(req_id req \<mapsto> updatedSarana)\<rparr>))))"

definition delete_sarana :: "env \<Rightarrow> request \<Rightarrow> world \<Rightarrow> outcome \<times> world" where
  "delete_sarana E req w =
     (case findUnique (sarana_tbl w) (req_id req) of
        Inl e \<Rightarrow> (failure ''Failed to delete sarana'' e, w)
      | Inr None \<Rightarrow> (not_found ''Sarana not found'', w)
      | Inr (Some existingSarana) \<Rightarrow>
          (case delete_if_set E (sar_image existingSarana) w of
             (Inl e, w1) \<Rightarrow> (failure ''Failed to delete sarana'' e, w1)
           | (Inr u, w1) \<Rightarrow>
               (Sent (Response 204 NoBody),
                w1\<lparr>sarana_tbl := (sarana_tbl w1)(req_id req := None)\<rparr>)))"

subsection \<open>Headmaster message\<close>

text \<open>Its \<open>catch\<close> block sends the error message without the details.\<close>

definition put_headmaster_message :: "env \<Rightarrow> request \<Rightarrow> world \<Rightarrow> outcome \<times> world" where
  "put_headmaster_message E req w =
     (case findUnique (headmaster_tbl w) (req_id req) of
        Inl e \<Rightarrow> (Sent (Response 500 (JsonError ''Failed to update headmaster message'')), w)
      | Inr None \<Rightarrow> (not_found ''Headmaster Message not found'', w)
      | Inr (Some existingMessage) \<Rightarrow>
          (case upload_replacing E (req_file req) None (Some (hm_image existingMessage)) w of
             (Inl e, w1) \<Rightarrow>
               (Sent (Response 500 (JsonError ''Failed to update headmaster message'')), w1)
           | (Inr newImage, w1) \<Rightarrow>
               (case js_or newImage (Some (hm_image existingMessage)) of
                  None \<Rightarrow>
                    (Sent (Response 500 (JsonError ''Failed to update headmaster message'')), w1)
                | Some img \<Rightarrow>
                    (let updatedHeadmasterMessage =
                       \<lparr>hm_message = upd (req_body req ''message'') (hm_message existingMessage),
                        hm_description =
                          upd (req_body req ''description'') (hm_description existingMessage),
                        hm_image = img,
                        hm_headmasterName =
                          upd (req_body req ''headmasterName'')
                            (hm_headmasterName existingMessage)\<rparr>
                     in (ok_row (HeadmasterRow (req_id req) updatedHeadmasterMessage),
                         w1\<lparr>headmaster_tbl :=
                              (headmaster_tbl w1)(req_id req \<mapsto> updatedHeadmasterMessage)\<rparr>)))))"

subsection \<open>Sejarah\<close>

text \<open>The sejarah handlers have no \<open>try\<close> block: an exception rejects the handler.\<close>

definition put_sejarah :: "env \<Rightarrow> request \<Rightarrow> world \<Rightarrow> outcome \<times> world" where
  "put_sejarah E req w =
     (case findUnique (sejarah_tbl w) (req_id req) of
        Inl e \<Rightarrow> (Rejected e, w)
      | Inr None \<Rightarrow> (not_found ''Sejarah not found'', w)
      | Inr (Some existingSejarah) \<Rightarrow>
          (case upload_replacing E (req_file req) (sej_image existingSejarah)
                  (sej_image existingSejarah) w of
             (Inl e, w1) \<Rightarrow> (Rejected e, w1)
           | (Inr imageUrl, w1) \<Rightarrow>
               (let updatedSejarah =
                  \<lparr>sej_period = upd (req_body req ''period'') (sej_period existingSejarah),
                   sej_text = upd (req_body req ''text'') (sej_text existingSejarah),
                   sej_image = imageUrl\<rparr>
                in (ok_row (SejarahRow (req_id req) updatedSejarah),
                    w1\<lparr>sejarah_tbl := (sejarah_tbl w1)(req_id req \<mapsto> updatedSejarah)\<rparr>))))"

definition delete_sejarah :: "env \<Rightarrow> request \<Rightarrow> world \<Rightarrow> outcome \<times> world" where
  "delete_sejarah E req w =
     (case findUnique (sejarah_tbl w) (req_id req) of
        Inl e \<Rightarrow> (Rejected e, w)
      | Inr None \<Rightarrow> (not_found ''Sejarah not found'', w)
      | Inr (Some existingSejarah) \<Rightarrow>
          (case delete_if_set E (sej_image existingSejarah) w of
             (Inl e, w1) \<Rightarrow> (Rejected e, w1)
           | (Inr u, w1) \<Rightarrow>
               (Sent (Response 200 (JsonMessage ''Slide sejarah berhasil dihapus'')),
                w1\<lparr>sejarah_tbl := (sejarah_tbl w1)(req_id req := None)\<rparr>)))"

subsection \<open>Visi misi\<close>

text \<open>
  The handler calls \<open>prisma.visiMisi.update\<close> at once, outside any \<open>try\<close> block; Prisma
  rejects an update whose \<open>id\<close> does not fit the column or whose row does not exist.
\<close>

definition put_visi_misi :: "env \<Rightarrow> request \<Rightarrow> world \<Rightarrow> outcome \<times> world" where
  "put_visi_misi E req w =
     (case findUniqueOrThrow (visimisi_tbl w) (req_id req) of
        Inl e \<Rightarrow> (Rejected e, w)
      | Inr old \<Rightarrow>
          (let updatedVisiMisi =
             \<lparr>vm_visi = upd (req_body req ''visi'') (vm_visi old),
              vm_misi = (case req_misi req of None \<Rightarrow> vm_misi old | Some misi \<Rightarrow> misi)\<rparr>
           in (ok_row (VisiMisiRow (req_id req) updatedVisiMisi),
               w\<lparr>visimisi_tbl := (visimisi_tbl w)(req_id req \<mapsto> updatedVisiMisi)\<rparr>)))"

subsection \<open>Contacts\<close>

text \<open>
  The handler calls \<open>prisma.contact.delete\<close> inside \<open>try\<close>; Prisma rejects a deletion
  whose \<open>id\<close> does not fit the column or whose row does not exist, and the \<open>catch\<close>
  block answers 404 to either.
\<close>

definition delete_contact :: "env \<Rightarrow> request \<Rightarrow> world \<Rightarrow> outcome \<times> world" where
  "delete_contact E req w =
     (case findUniqueOrThrow (contact_tbl w) (req_id req) of
        Inl e \<Rightarrow> (not_found ''Contact not found or failed to delete'', w)
      | Inr deletedContact \<Rightarrow>
          (ok_row (ContactRow (req_id req) deletedContact),
           w\<lparr>contact_tbl := (contact_tbl w)(req_id req := None)\<rparr>))"

section \<open>Token service and login\<close>

text \<open>
  \<open>jwt.sign(payload, secret, {expiresIn})\<close> stamps the payload with \<open>iat\<close>, the current
  time in whole seconds, and \<open>exp = iat + expiresIn\<close>; \<open>"1h"\<close> is 3600 seconds.
\<close>

definition jwt_sign :: "env \<Rightarrow> int \<Rightarrow> string \<Rightarrow> nat \<Rightarrow> nat \<Rightarrow> string" where
  "jwt_sign E ident secret expiresIn now =
     jwt_encode E
       \<lparr>tok_secret = secret,
        tok_payload =
          \<lparr>jwt_id = ident, jwt_iat = now div 1000, jwt_exp = Some (now div 1000 + expiresIn)\<rparr>\<rparr>"

text \<open>\<open>jwt.decode(token)\<close> reads the payload without checking anything.\<close>

definition jwt_decode :: "env \<Rightarrow> string \<Rightarrow> jwt_payload option" where
  "jwt_decode E token = map_option tok_payload (jwt_parse E token)"

text \<open>
  \<open>jwt.verify(token, secret)\<close> throws \<open>JsonWebTokenError\<close> on a malformed token or a
  signature made with another secret, and \<open>TokenExpiredError\<close> once the current time in
  whole seconds has reached \<open>exp\<close>.
\<close>

definition jwt_verify :: "env \<Rightarrow> string \<Rightarrow> string \<Rightarrow> nat \<Rightarrow> exn + jwt_payload" where
  "jwt_verify E token secret now =
     (case jwt_parse E token of
        None \<Rightarrow> Inl JsonWebTokenError
      | Some t \<Rightarrow>
          (if tok_secret t \<noteq> secret then Inl JsonWebTokenError
           else (case jwt_exp (tok_payload t) of
                   None \<Rightarrow> Inr (tok_payload t)
                 | Some e \<Rightarrow>
                     (if e \<le> now div 1000 then Inl TokenExpiredError
                      else Inr (tok_payload t)))))"

text \<open>
  \<open>decoded.exp * 1000 < Date.now()\<close>; without \<open>exp\<close> the product is \<open>NaN\<close> and the
  comparison is false.
\<close>

definition exp_passed :: "jwt_payload \<Rightarrow> nat \<Rightarrow> bool" where
  "exp_passed decoded now = (case jwt_exp decoded of None \<Rightarrow> False | Some e \<Rightarrow> e * 1000 < now)"

text \<open>
  The middleware reads the clock twice: inside \<open>jwt.verify\<close> (\<open>now_verify\<close>) and in its own
  comparison (\<open>now_check\<close>).
\<close>

definition authenticateToken :: "env \<Rightarrow> request \<Rightarrow> nat \<Rightarrow> nat \<Rightarrow> jwt_payload middleware" where
  "authenticateToken E req now_verify now_check =
     (let token =
        (case req_authorization req of
           None \<Rightarrow> None
         | Some h \<Rightarrow> index_opt (split_on (CHR '' '') h) 1)
      in case token of
           None \<Rightarrow> Respond (Response 401 (JsonError ''Access denied''))
         | Some t \<Rightarrow>
             (if \<not> truthy (Some t) then Respond (Response 401 (JsonError ''Access denied''))
              else
                (case jwt_verify E t (SECRET_KEY E) now_verify of
                   Inl error \<Rightarrow> Respond (Response 403 (JsonError ''Invalid token''))
                 | Inr decoded \<Rightarrow>
                     (if exp_passed decoded now_check
                      then Respond (Response 403 (JsonError ''Token expired, please log in again''))
                      else Next decoded))))"

text \<open>
  \<open>POST /admin/login\<close>.  Prisma rejects a \<open>findUnique\<close> whose only key is \<open>undefined\<close>,
  and bcrypt rejects a comparison with an \<open>undefined\<close> password; both land in the
  \<open>catch\<close> block.
\<close>

definition login :: "env \<Rightarrow> request \<Rightarrow> world \<Rightarrow> outcome \<times> world" where
  "login E req w =
     (case req_body req ''username'' of
        None \<Rightarrow> (Sent (Response 500 (JsonError ''An error occurred during login'')), w)
      | Some username \<Rightarrow>
          (case find (\<lambda>a. admin_username a = username) (admin_tbl w) of
             None \<Rightarrow> (Sent (Response 401 (JsonError ''Invalid username or password'')), w)
           | Some admin \<Rightarrow>
               (case req_body req ''password'' of
                  None \<Rightarrow> (Sent (Response 500 (JsonError ''An error occurred during login'')), w)
                | Some password \<Rightarrow>
                    (if \<not> bcrypt_compare E password (admin_password admin)
                     then (Sent (Response 401 (JsonError ''Invalid username or password'')), w)
                     else (Sent (Response 200 (JsonToken
                             (jwt_sign E (admin_id admin) (SECRET_KEY E) 3600 (clock w)))), w)))))"

section \<open>The routes by resource\<close>

datatype resource =
    News | Hero | Extracurriculars | Kalender | Alumni | Galeri | Sarana
  | HeadmasterMessage | Sejarah | VisiMisi | Contacts

type_synonym handler = "env \<Rightarrow> request \<Rightarrow> world \<Rightarrow> outcome \<times> world"

text \<open>\<open>GET /api/R/:id\<close>, \<open>PUT /api/R/:id\<close> and \<open>DELETE /api/R/:id\<close>, where the resource has one.\<close>

fun get_handler :: "resource \<Rightarrow> handler option" where
  "get_handler News = Some get_news"
| "get_handler Extracurriculars = Some get_extracurricular"
| "get_handler Alumni = Some get_alumni"
| "get_handler Galeri = Some get_galeri"
| "get_handler Sarana = Some get_sarana"
| "get_handler r = None"

fun update_handler :: "resource \<Rightarrow> handler option" where
  "update_handler News = Some put_news"
| "update_handler Hero = Some put_hero"
| "update_handler Extracurriculars = Some put_extracurricular"
| "update_handler Kalender = Some put_kalender"
| "update_handler Alumni = Some put_alumni"
| "update_handler Galeri = Some put_galeri"
| "update_handler Sarana = Some put_sarana"
| "update_handler HeadmasterMessage = Some put_headmaster_message"
| "update_handler Sejarah = Some put_sejarah"
| "update_handler VisiMisi = Some put_visi_misi"
| "update_handler Contacts = None"

fun delete_handler :: "resource \<Rightarrow> handler option" where
  "delete_handler News = Some delete_news"
| "delete_handler Extracurriculars = Some delete_extracurricular"
| "delete_handler Alumni = Some delete_alumni"
| "delete_handler Galeri = Some delete_galeri"
| "delete_handler Sarana = Some delete_sarana"
| "delete_handler Sejarah = Some delete_sejarah"
| "delete_handler Contacts = Some delete_contact"
| "delete_handler r = None"

text \<open>
  The row of a resource with a given id, if the table has one; an id that does not fit
  the 32-bit column has none.
\<close>

definition stored :: "(int \<rightharpoonup> 'a) \<Rightarrow> int \<Rightarrow> 'a option" where
  "stored tbl i = (if int4 i then tbl i else None)"

fun row_of :: "resource \<Rightarrow> world \<Rightarrow> int \<Rightarrow> row option" where
  "row_of News w i = map_option (NewsRow i) (stored (news_tbl w) i)"
| "row_of Hero w i = map_option (HeroRow i) (stored (hero_tbl w) i)"
| "row_of Extracurriculars w i = map_option (ExtracurricularRow i) (stored (extracurricular_tbl w) i)"
| "row_of Kalender w i = map_option (KalenderRow i) (stored (kalender_tbl w) i)"
| "row_of Alumni w i = map_option (AlumniRow i) (stored (alumni_tbl w) i)"
| "row_of Galeri w i = map_option (GaleriRow i) (stored (galeri_tbl w) i)"
| "row_of Sarana w i = map_option (SaranaRow i) (stored (sarana_tbl w) i)"
| "row_of HeadmasterMessage w i = map_option (HeadmasterRow i) (stored (headmaster_tbl w) i)"
| "row_of Sejarah w i = map_option (SejarahRow i) (stored (sejarah_tbl w) i)"
| "row_of VisiMisi w i = map_option (VisiMisiRow i) (stored (visimisi_tbl w) i)"
| "row_of Contacts w i = map_option (ContactRow i) (stored (contact_tbl w) i)"

text \<open>
  The media field of a row as a JavaScript value (\<open>None\<close> is \<open>null\<close>): \<open>image\<close>, or
  \<open>file\<close> for kalender.  Visi-misi and contact rows have none.
\<close>

fun has_media :: "resource \<Rightarrow> bool" where
  "has_media VisiMisi = False"
| "has_media Contacts = False"
| "has_media r = True"

fun media_of :: "row \<Rightarrow> string option" where
  "media_of (NewsRow i r) = news_image r"
| "media_of (HeroRow i r) = Some (hero_image r)"
| "media_of (ExtracurricularRow i r) = ex_image r"
| "media_of (KalenderRow i r) = Some (kal_file r)"
| "media_of (AlumniRow i r) = al_image r"
| "media_of (GaleriRow i r) = Some (gal_image r)"
| "media_of (SaranaRow i r) = sar_image r"
| "media_of (HeadmasterRow i r) = Some (hm_image r)"
| "media_of (SejarahRow i r) = sej_image r"
| "media_of (VisiMisiRow i r) = None"
| "media_of (ContactRow i r) = None"

text \<open>The text columns of a row, by the name the request body gives them.\<close>

fun text_fields :: "row \<Rightarrow> (string \<times> string) list" where
  "text_fields (NewsRow i r) = [(''title'', news_title r), (''description'', news_description r)]"
| "text_fields (HeroRow i r) =
     [(''welcomeMessage'', hero_welcomeMessage r), (''description'', hero_description r)]"
| "text_fields (ExtracurricularRow i r) = [(''name'', ex_name r), (''description'', ex_description r)]"
| "text_fields (KalenderRow i r) = [(''title'', kal_title r)]"
| "text_fields (AlumniRow i r) = [(''title'', al_title r)]"
| "text_fields (GaleriRow i r) = [(''title'', gal_title r)]"
| "text_fields (SaranaRow i r) = [(''name'', sar_name r), (''description'', sar_description r)]"
| "text_fields (HeadmasterRow i r) =
     [(''message'', hm_message r), (''description'', hm_description r),
      (''headmasterName'', hm_headmasterName r)]"
| "text_fields (SejarahRow i r) = [(''period'', sej_period r), (''text'', sej_text r)]"
| "text_fields (VisiMisiRow i r) = [(''visi'', vm_visi r)]"
| "text_fields (ContactRow i r) =
     [(''name'', c_name r), (''email'', c_email r), (''phone'', c_phone r),
      (''message'', c_message r)]"

text \<open>
  How a handler fails when an exception reaches the end of its \<open>try\<close> block: it answers
  500; the sejarah handlers, which have no \<open>try\<close> block, reject.
\<close>

fun failed_as :: "resource \<Rightarrow> outcome \<Rightarrow> bool" where
  "failed_as r (Rejected e) = (r = Sejarah)"
| "failed_as r (Sent (Response status b)) = (r \<noteq> Sejarah \<and> status = 500)"



section \<open>An example configuration\<close>

text \<open>
  A small configuration, database and request on which the theorems below are
  instantiated.  The token library of the example knows one token, \<open>''tok''\<close>.
\<close>

definition example_token :: signed_token where
  "example_token =
     \<lparr>tok_secret = ''k'',
      tok_payload = \<lparr>jwt_id = 1, jwt_iat = 1234, jwt_exp = Some 4834\<rparr>\<rparr>"

definition example_env :: env where
  "example_env =
     \<lparr>SUPABASE_URL = ''https://p.supabase.co'',
      SECRET_KEY = ''k'',
      bcrypt_compare = (\<lambda>password hash. hash = ''#'' @ password),
      jwt_encode = (\<lambda>t. ''tok''),
      jwt_parse = (\<lambda>s. if s = ''tok'' then Some example_token else None),
      Date_parse = (\<lambda>s. if s = ''2024-01-01'' then Some 1704067200000 else None)\<rparr>"

definition example_file :: upload_file where
  "example_file = \<lparr>originalname = ''a b.png'', buffer = ''PNG'', mimetype = ''image/png''\<rparr>"

definition example_world :: world where
  "example_world =
     \<lparr>admin_tbl =
        [\<lparr>admin_id = 1, admin_username = ''admin'', admin_password = ''#secret''\<rparr>],
      hero_tbl = Map.empty,
      news_tbl =
        [1 \<mapsto> \<lparr>news_title = ''A'', news_description = ''B'', news_image = None,
                news_publishedAt = 1704067200000\<rparr>,
         2 \<mapsto> \<lparr>news_title = ''C'', news_description = ''D'',
                news_image =
                  Some ''https://p.supabase.co/storage/v1/object/public/uploads/5-old.png'',
                news_publishedAt = 1704067200000\<rparr>],
      extracurricular_tbl = Map.empty,
      kalender_tbl = Map.empty,
      alumni_tbl = Map.empty,
      galeri_tbl = Map.empty,
      sarana_tbl = Map.empty,
      headmaster_tbl = Map.empty,
      sejarah_tbl = [1 \<mapsto> \<lparr>sej_period = ''1990'', sej_text = ''T'', sej_image = None\<rparr>],
      visimisi_tbl = Map.empty,
      contact_tbl = Map.empty,
      bucket = [''5-old.png'' \<mapsto> (''OLD'', ''image/png'')],
      upload_fault = False,
      remove_fault = False,
      clock = 1234567,
      calls = []\<rparr>"

definition example_request :: request where
  "example_request =
     \<lparr>req_id = 1, req_body = Map.empty, req_misi = None, req_file = None,
      req_authorization = None\<rparr>"

text \<open>
  A token library that reads back what it serialised: the example configuration with a
  serialisation that writes the numbers in unary, as runs of \<open>1\<close>, between dots, and
  the secret last.
\<close>

definition unary :: "nat \<Rightarrow> string" where
  "unary n = replicate n (CHR ''1'')"

definition read_unary :: "string \<Rightarrow> nat \<times> string" where
  "read_unary s =
     (length (takeWhile (\<lambda>c. c = CHR ''1'') s), dropWhile (\<lambda>c. c = CHR ''1'') s)"

definition codec_encode :: "signed_token \<Rightarrow> string" where
  "codec_encode t =
     (if jwt_id (tok_payload t) < 0 then ''-'' else ''+'')
     @ unary (nat \<bar>jwt_id (tok_payload t)\<bar>) @ ''.''
     @ unary (jwt_iat (tok_payload t)) @ ''.''
     @ (case jwt_exp (tok_payload t) of None \<Rightarrow> ''n'' | Some e \<Rightarrow> ''s'' @ unary e) @ ''.''
     @ tok_secret t"

definition after_dot :: "string \<Rightarrow> string option" where
  "after_dot s = (case s of c # r \<Rightarrow> if c = CHR ''.'' then Some r else None | [] \<Rightarrow> None)"

definition codec_parse :: "string \<Rightarrow> signed_token option" where
  "codec_parse s =
     (case s of
        [] \<Rightarrow> None
      | sg # r0 \<Rightarrow>
          (if sg \<noteq> CHR ''-'' \<and> sg \<noteq> CHR ''+'' then None
           else
             (case after_dot (snd (read_unary r0)) of
                None \<Rightarrow> None
              | Some r1 \<Rightarrow>
                  (case after_dot (snd (read_unary r1)) of
                     None \<Rightarrow> None
                   | Some r2 \<Rightarrow>
                       (case r2 of
                          [] \<Rightarrow> None
                        | m # r3 \<Rightarrow>
                            (if m \<noteq> CHR ''n'' \<and> m \<noteq> CHR ''s'' then None
                             else
                               (case after_dot (snd (read_unary r3)) of
                                  None \<Rightarrow> None
                                | Some secret \<Rightarrow>
                                    Some
                                      \<lparr>tok_secret = secret,
                                       tok_payload =
                                         \<lparr>jwt_id =
                                            (if sg = CHR ''-'' then - int (fst (read_unary r0))
                                             else int (fst (read_unary r0))),
                                          jwt_iat = fst (read_unary r1),
                                          jwt_exp =
                                            (if m = CHR ''n'' then None
                                             else Some (fst (read_unary r3)))\<rparr>\<rparr>)))))))"

definition codec_env :: env where
  "codec_env = example_env\<lparr>jwt_encode := codec_encode, jwt_parse := codec_parse\<rparr>"

section \<open>Facts about the URI builtins\<close>











lemma unescape_plain: "CHR ''%'' \<notin> set s \<Longrightarrow> unescape s = Some (map Lit s)"
  by (induction s) auto

lemma utf8_items_Lit: "utf8_items (map Lit s) = Some s"
  by (induction s) auto

lemma decode_plain: "CHR ''%'' \<notin> set s \<Longrightarrow> decodeURIComponent s = Inr s"
  by (simp add: decodeURIComponent_def unescape_plain utf8_items_Lit)



lemma replace_first_prefix: "replace_first p (p @ k) = k"
proof (cases "p @ k")
  case Nil
  then show ?thesis by simp
next
  case (Cons c cs)
  have "prefix p (p @ k)" by simp
  then have "replace_first p (p @ k) = drop (length p) (p @ k)"
    unfolding Cons by simp
  then show ?thesis by simp
qed







section \<open>The blob store adapter\<close>

lemma uploadToSupabase_cases:
  "uploadToSupabase E f w =
     (case (if upload_fault w then Inl URIError else request_key (uniqueFilename (clock w) f)) of
        Inl e \<Rightarrow>
          (Inl (Error ''Failed to upload file to Supabase''),
           w\<lparr>calls := calls w @ [UploadCall f]\<rparr>)
      | Inr key \<Rightarrow>
          (if bucket w key \<noteq> None
           then (Inl (Error ''Failed to upload file to Supabase''),
                 w\<lparr>calls := calls w @ [UploadCall f]\<rparr>)
           else (Inr (getPublicUrl E (uniqueFilename (clock w) f)),
                 w\<lparr>calls := calls w @ [UploadCall f],
                   bucket := (bucket w)(key \<mapsto> (buffer f, mimetype f))\<rparr>)))"
  by (simp add: uploadToSupabase_def storage_upload_def Let_def split: sum.split)

lemma uploadToSupabase_Inr:
  assumes "uploadToSupabase E f w = (Inr url, w1)"
  obtains key where "request_key (uniqueFilename (clock w) f) = Inr key"
    and "url = getPublicUrl E (uniqueFilename (clock w) f)"
    and "w1 = w\<lparr>calls := calls w @ [UploadCall f],
                bucket := (bucket w)(key \<mapsto> (buffer f, mimetype f))\<rparr>"
    and "bucket w key = None"
    and "\<not> upload_fault w"
proof -
  from assms have nf: "\<not> upload_fault w"
    unfolding uploadToSupabase_cases by (auto split: if_splits sum.splits)
  with assms obtain key where k: "request_key (uniqueFilename (clock w) f) = Inr key"
    unfolding uploadToSupabase_cases by (auto split: if_splits sum.splits)
  with assms nf have free: "bucket w key = None"
    unfolding uploadToSupabase_cases by (cases "bucket w key") (auto split: if_splits)
  from assms nf k free have "url = getPublicUrl E (uniqueFilename (clock w) f)"
    and "w1 = w\<lparr>calls := calls w @ [UploadCall f],
                bucket := (bucket w)(key \<mapsto> (buffer f, mimetype f))\<rparr>"
    unfolding uploadToSupabase_cases by simp_all
  then show ?thesis
    using k free nf by (intro that)
qed

lemma uploadToSupabase_world:
  assumes "uploadToSupabase E f w = (r, w1)"
  shows "w1 = w\<lparr>calls := calls w @ [UploadCall f], bucket := bucket w1\<rparr>"
  using assms unfolding uploadToSupabase_cases
  by (auto split: if_splits sum.splits)

lemma encodeURI_Nil_iff: "encodeURI s = [] \<longleftrightarrow> s = []"
  by (cases s) (simp_all add: encodeURI_def encode_byte_def)

lemma getPublicUrl_nonempty: "getPublicUrl E key \<noteq> []"
  by (simp add: getPublicUrl_def encodeURI_Nil_iff)



lemma deleteFromSupabase_cases:
  "deleteFromSupabase E u w =
     (case filePath E u of
        Inl e \<Rightarrow> (Inl e, w\<lparr>calls := calls w @ [DeleteCall u]\<rparr>)
      | Inr path \<Rightarrow>
          (if remove_fault w
           then (Inl (Error ''Failed to delete file from Supabase''),
                 w\<lparr>calls := calls w @ [DeleteCall u]\<rparr>)
           else (Inr (), w\<lparr>calls := calls w @ [DeleteCall u],
                            bucket := (bucket w)(path := None)\<rparr>)))"
  by (simp add: deleteFromSupabase_def storage_remove_def Let_def split: sum.split)


lemma request_key_clean:
  assumes "CHR ''#'' \<notin> set t" and "CHR ''?'' \<notin> set t" and "CHR ''%'' \<notin> set t"
    and "url_input t = t"
  shows "request_key t = Inr t"
proof -
  have "\<forall>c\<in>set t. c \<noteq> CHR ''#'' \<and> c \<noteq> CHR ''?''"
    using assms(1,2) by blast
  then have "takeWhile (\<lambda>c. c \<noteq> CHR ''#'' \<and> c \<noteq> CHR ''?'') t = t"
    by (simp only: takeWhile_eq_all_conv)
  then show ?thesis
    unfolding request_key_def assms(4) by (simp only: decode_plain [OF assms(3)])
qed


lemma example_input: "url_input ''1234567-a b.png'' = ''1234567-a b.png''"
  by (simp add: url_input_def byte_def)


lemmas eval_chars = char_of_def bit_Suc_0_iff

lemma decimal_numeral:
  "decimal (numeral k) =
     (if (numeral k :: nat) < 10 then [char_of (48 + (numeral k :: nat))]
      else decimal (numeral k div 10) @ [char_of (48 + (numeral k :: nat) mod 10)])"
  by (rule decimal.simps)

lemma example_clock: "decimal (clock example_world) = ''1234567''"
  by (simp add: example_world_def decimal_numeral decimal.simps [of "Suc 0"] eval_chars)



lemma example_key: "uniqueFilename (clock example_world) example_file = ''1234567-a b.png''"
  by (simp add: uniqueFilename_def example_clock example_file_def)

lemma example_url:
  "getPublicUrl example_env ''1234567-a b.png'' =
     ''https://p.supabase.co/storage/v1/object/public/uploads/1234567-a%20b.png''"
  by (simp add: getPublicUrl_def client_base_def BUCKET_NAME_def example_env_def
      encodeURI_def encode_byte_def uri_keep_def hex_char_def eval_chars)

lemma example_upload:
  "uploadToSupabase example_env example_file example_world =
     (Inr ''https://p.supabase.co/storage/v1/object/public/uploads/1234567-a%20b.png'',
      snd (uploadToSupabase example_env example_file example_world))"
proof -
  have k: "request_key ''1234567-a b.png'' = Inr ''1234567-a b.png''"
    by (rule request_key_clean) (simp_all add: example_input)
  have "bucket example_world ''1234567-a b.png'' = None" "\<not> upload_fault example_world"
    by (simp_all add: example_world_def)
  then show ?thesis
    by (simp add: uploadToSupabase_cases example_key example_url k)
qed















section \<open>Reading and deleting a row that is not there\<close>

lemma findUnique_absent:
  "stored tbl i = None \<Longrightarrow>
   findUnique tbl i = (if int4 i then Inr None else Inl ValueOutOfRange)"
  by (auto simp: stored_def findUnique_def split: if_splits)

lemma findUnique_present: "stored tbl i = Some x \<Longrightarrow> findUnique tbl i = Inr (Some x)"
  by (simp add: stored_def findUnique_def split: if_splits)

lemma stored_int4: "stored tbl i = Some x \<Longrightarrow> int4 i"
  by (simp add: stored_def split: if_splits)

text \<open>
  Claim C9, as amended.  For every resource with a get-by-id route, a request for an id
  that has no row and fits the 32-bit \<open>id\<close> column is answered 200 with the JSON value
  \<open>null\<close>, not 404.  For an id that does not fit the column the lookup throws and the
  handler, which has no \<open>try\<close> block, rejects without sending a response.  Nothing
  changes in either case.
\<close>

theorem get_missing_id_null:
  assumes "get_handler r = Some h" and "row_of r w (req_id req) = None"
  shows "h E req w =
           (if int4 (req_id req) then Sent (Response 200 JsonNull) else Rejected ValueOutOfRange,
            w)"
  using assms
  by (cases r)
     (simp_all add: get_news_def get_extracurricular_def get_alumni_def get_galeri_def
        get_sarana_def findUnique_absent)

text \<open>
  The amended claim at the example: news has rows 1 and 2 and no row 7.
\<close>

theorem get_missing_id_null_witness:
  "get_handler News = Some get_news
   \<and> row_of News example_world 7 = None
   \<and> get_news example_env (example_request\<lparr>req_id := 7\<rparr>) example_world =
       (Sent (Response 200 JsonNull), example_world)"
  using get_missing_id_null [of News get_news example_world "example_request\<lparr>req_id := 7\<rparr>"
      example_env]
  by (simp add: example_world_def stored_def int4_def)

text \<open>
  Claim C9 as stated fails for an id beyond the column's range: \<open>GET /api/news/2147483648\<close>
  has no matching row, and the handler rejects instead of answering \<open>null\<close>.
\<close>

theorem get_news_out_of_range_rejects:
  "row_of News example_world 2147483648 = None
   \<and> get_news example_env (example_request\<lparr>req_id := 2147483648\<rparr>) example_world =
       (Rejected ValueOutOfRange, example_world)"
  by (simp add: get_news_def findUnique_def stored_def int4_def)

text \<open>
  Claim C5, as amended.  For every resource with a delete route, deleting an id that has no
  row leaves the world as it was before the request: no blob helper is called, the bucket
  and every table are unchanged.  The answer is 404 with an error message when the id
  fits the 32-bit \<open>id\<close> column, and for contacts always.  For an id that does not fit the
  column the lookup throws: news, extracurriculars, alumni, galeri and sarana answer 500
  from their \<open>catch\<close> block, and the sejarah handler, which has none, rejects.
\<close>

theorem delete_missing_id_404:
  assumes "delete_handler r = Some h" and "row_of r w (req_id req) = None"
  shows "snd (h E req w) = w
       \<and> (if int4 (req_id req) \<or> r = Contacts
           then \<exists>msg. fst (h E req w) = Sent (Response 404 (JsonError msg))
           else if r = Sejarah then fst (h E req w) = Rejected ValueOutOfRange
           else \<exists>msg. fst (h E req w) =
                  Sent (Response 500 (JsonErrorDetails msg ValueOutOfRange)))"
  using assms
  by (cases r)
     (simp_all add: delete_news_def delete_extracurricular_def delete_alumni_def
        delete_galeri_def delete_sarana_def delete_sejarah_def delete_contact_def
        findUniqueOrThrow_def findUnique_absent not_found_def failure_def)

text \<open>
  The amended claim at the example: news has rows 1 and 2 and no row 7.
\<close>

theorem delete_missing_id_404_witness:
  "delete_handler News = Some delete_news
   \<and> row_of News example_world 7 = None
   \<and> delete_news example_env (example_request\<lparr>req_id := 7\<rparr>) example_world =
       (Sent (Response 404 (JsonError ''News not found'')), example_world)"
proof -
  have a: "delete_handler News = Some delete_news" by simp
  have b: "row_of News example_world (req_id (example_request\<lparr>req_id := 7\<rparr>)) = None"
    by (simp add: example_world_def stored_def)
  have c: "int4 (req_id (example_request\<lparr>req_id := 7\<rparr>))"
    by (simp add: int4_def)
  from delete_missing_id_404 [OF a b, of example_env] c
  have "snd (delete_news example_env (example_request\<lparr>req_id := 7\<rparr>) example_world) =
      example_world"
    and "\<exists>msg. fst (delete_news example_env (example_request\<lparr>req_id := 7\<rparr>) example_world) =
      Sent (Response 404 (JsonError msg))"
    by simp_all
  moreover have "fst (delete_news example_env (example_request\<lparr>req_id := 7\<rparr>) example_world) =
      Sent (Response 404 (JsonError ''News not found''))"
    using b c by (simp add: delete_news_def findUnique_absent not_found_def)
  ultimately show ?thesis
    using a b by (simp add: prod_eq_iff)
qed

text \<open>
  Claim C5 as stated fails for an id beyond the column's range:
  \<open>DELETE /api/news/2147483648\<close> has no matching row and is answered 500, not 404.
\<close>

theorem delete_news_out_of_range_500:
  "row_of News example_world 2147483648 = None
   \<and> delete_news example_env (example_request\<lparr>req_id := 2147483648\<rparr>) example_world =
       (Sent (Response 500 (JsonErrorDetails ''Failed to delete news'' ValueOutOfRange)),
        example_world)"
  by (simp add: delete_news_def findUnique_def stored_def int4_def failure_def)

section \<open>Updating a row that is not there\<close>

text \<open>
  Every update handler but the one of visi-misi looks the row up first and, for an id that
  fits the column, answers 404 when there is none, leaving the world as it was.
\<close>

lemma update_missing_id_404:
  assumes "update_handler r = Some h" and "r \<noteq> VisiMisi"
    and "row_of r w (req_id req) = None" and "int4 (req_id req)"
  shows "\<exists>msg. h E req w = (Sent (Response 404 (JsonError msg)), w)"
  using assms
  by (cases r)
     (simp_all add: put_news_def put_hero_def put_extracurricular_def put_kalender_def
        put_alumni_def put_galeri_def put_sarana_def put_headmaster_message_def
        put_sejarah_def not_found_def findUnique_absent)

lemma put_visi_misi_missing:
  "row_of VisiMisi w (req_id req) = None \<Longrightarrow>
   put_visi_misi E req w =
     (Rejected (if int4 (req_id req) then RecordNotFound else ValueOutOfRange), w)"
  by (simp add: put_visi_misi_def findUniqueOrThrow_def findUnique_absent)

text \<open>
  Claim C1, at the input where it fails.  \<open>PUT /api/visi-misi/7\<close> on a database with no
  visi-misi row 7: the handler does not look the row up, \<open>prisma.visiMisi.update\<close>
  rejects, nothing catches the rejection, and no 404 is sent.
\<close>

theorem put_visi_misi_missing_id_rejects:
  "update_handler VisiMisi = Some put_visi_misi
   \<and> row_of VisiMisi example_world 7 = None
   \<and> put_visi_misi example_env
       (example_request\<lparr>req_id := 7, req_body := [''visi'' \<mapsto> ''V''], req_misi := Some [''M'']\<rparr>)
       example_world = (Rejected RecordNotFound, example_world)"
  by (simp add: put_visi_misi_def findUniqueOrThrow_def findUnique_def stored_def int4_def
      example_world_def)

section \<open>Deleting an existing row\<close>

text \<open>
  Claim C2, as amended.  Deleting an existing row whose blob deletion (if the row has a
  media value) succeeds removes the row and is answered 204 without a body for news,
  extracurriculars, alumni, galeri and sarana, 200 with a confirmation message for
  sejarah, and 200 with the deleted row for contacts.
\<close>

theorem delete_existing_response:
  assumes "delete_handler r = Some h" and "row_of r w (req_id req) = Some x"
    and "fst (delete_if_set E (media_of x) w) = Inr ()"
  shows "fst (h E req w) =
           Sent (if r = Sejarah then Response 200 (JsonMessage ''Slide sejarah berhasil dihapus'')
                 else if r = Contacts then Response 200 (JsonRow x)
                 else Response 204 NoBody)
       \<and> row_of r (snd (h E req w)) (req_id req) = None"
proof (cases r)
  case News
  from assms(2) News obtain x' where x: "x = NewsRow (req_id req) x'"
    and s: "stored (news_tbl w) (req_id req) = Some x'"
    by auto
  from assms(1) News have hh: "h = delete_news" by simp
  show ?thesis
    using assms(3) unfolding hh x
    by (cases "delete_if_set E (media_of (NewsRow (req_id req) x')) w")
       (auto simp: News delete_news_def findUnique_present [OF s] stored_def)
next
  case Extracurriculars
  from assms(2) Extracurriculars obtain x' where x: "x = ExtracurricularRow (req_id req) x'"
    and s: "stored (extracurricular_tbl w) (req_id req) = Some x'"
    by auto
  from assms(1) Extracurriculars have hh: "h = delete_extracurricular" by simp
  show ?thesis
    using assms(3) unfolding hh x
    by (cases "delete_if_set E (media_of (ExtracurricularRow (req_id req) x')) w")
       (auto simp: Extracurriculars delete_extracurricular_def findUnique_present [OF s] stored_def)
next
  case Alumni
  from assms(2) Alumni obtain x' where x: "x = AlumniRow (req_id req) x'"
    and s: "stored (alumni_tbl w) (req_id req) = Some x'"
    by auto
  from assms(1) Alumni have hh: "h = delete_alumni" by simp
  show ?thesis
    using assms(3) unfolding hh x
    by (cases "delete_if_set E (media_of (AlumniRow (req_id req) x')) w")
       (auto simp: Alumni delete_alumni_def findUnique_present [OF s] stored_def)
next
  case Galeri
  from assms(2) Galeri obtain x' where x: "x = GaleriRow (req_id req) x'"
    and s: "stored (galeri_tbl w) (req_id req) = Some x'"
    by auto
  from assms(1) Galeri have hh: "h = delete_galeri" by simp
  show ?thesis
    using assms(3) unfolding hh x
    by (cases "delete_if_set E (media_of (GaleriRow (req_id req) x')) w")
       (auto simp: Galeri delete_galeri_def findUnique_present [OF s] stored_def)
next
  case Sarana
  from assms(2) Sarana obtain x' where x: "x = SaranaRow (req_id req) x'"
    and s: "stored (sarana_tbl w) (req_id req) = Some x'"
    by auto
  from assms(1) Sarana have hh: "h = delete_sarana" by simp
  show ?thesis
    using assms(3) unfolding hh x
    by (cases "delete_if_set E (media_of (SaranaRow (req_id req) x')) w")
       (auto simp: Sarana delete_sarana_def findUnique_present [OF s] stored_def)
next
  case Sejarah
  from assms(2) Sejarah obtain x' where x: "x = SejarahRow (req_id req) x'"
    and s: "stored (sejarah_tbl w) (req_id req) = Some x'"
    by auto
  from assms(1) Sejarah have hh: "h = delete_sejarah" by simp
  show ?thesis
    using assms(3) unfolding hh x
    by (cases "delete_if_set E (media_of (SejarahRow (req_id req) x')) w")
       (auto simp: Sejarah delete_sejarah_def findUnique_present [OF s] stored_def)
next
  case Contacts
  from assms(2) Contacts obtain x' where x: "x = ContactRow (req_id req) x'"
    and s: "stored (contact_tbl w) (req_id req) = Some x'"
    by auto
  from assms(1) Contacts have hh: "h = delete_contact" by simp
  show ?thesis
    unfolding hh x
    by (simp add: Contacts delete_contact_def findUniqueOrThrow_def findUnique_present [OF s]
        ok_row_def stored_def)
qed (use assms in simp_all)

text \<open>
  Claim C2 as stated fails for sejarah: deleting the existing slide 1 is answered 200
  with a message, not 204.
\<close>

theorem delete_sejarah_existing_not_204:
  "delete_handler Sejarah = Some delete_sejarah
   \<and> sejarah_tbl example_world 1 =
       Some \<lparr>sej_period = ''1990'', sej_text = ''T'', sej_image = None\<rparr>
   \<and> fst (delete_sejarah example_env example_request example_world) =
       Sent (Response 200 (JsonMessage ''Slide sejarah berhasil dihapus''))
   \<and> fst (delete_sejarah example_env example_request example_world) \<noteq>
       Sent (Response 204 NoBody)"
  by (simp add: delete_sejarah_def delete_if_set_def findUnique_def int4_def example_world_def
      example_request_def)

text \<open>
  The amended claim at the example: deleting news 1.
\<close>

theorem delete_existing_response_witness:
  "delete_handler News = Some delete_news
   \<and> row_of News example_world 1 =
       Some (NewsRow 1 \<lparr>news_title = ''A'', news_description = ''B'', news_image = None,
                news_publishedAt = 1704067200000\<rparr>)
   \<and> fst (delete_news example_env example_request example_world) = Sent (Response 204 NoBody)
   \<and> row_of News (snd (delete_news example_env example_request example_world)) 1 = None"
proof -
  let ?x = "NewsRow 1 \<lparr>news_title = ''A'', news_description = ''B'', news_image = None,
                news_publishedAt = 1704067200000\<rparr>"
  have a: "delete_handler News = Some delete_news" by simp
  have b: "row_of News example_world (req_id example_request) = Some ?x"
    by (simp add: example_world_def example_request_def stored_def int4_def)
  have c: "fst (delete_if_set example_env (media_of ?x) example_world) = Inr ()"
    by (simp add: delete_if_set_def)
  have i: "req_id example_request = 1"
    by (simp add: example_request_def)
  show ?thesis
    using delete_existing_response [OF a b c] a b unfolding i by simp
qed

section \<open>Token verification\<close>

lemma exp_bounds:
  fixes now :: nat
  shows "(now div 1000 + 3600) * 1000 \<le> now + 3600000
       \<and> now + 3600000 < (now div 1000 + 3600) * 1000 + 1000"
proof -
  define q where "q = now div 1000"
  define r where "r = now mod 1000"
  have r: "r < 1000" by (simp add: r_def)
  have e: "now = q * 1000 + r" by (simp add: q_def r_def)
  have "(q + 3600) * 1000 \<le> q * 1000 + r + 3600000
      \<and> q * 1000 + r + 3600000 < (q + 3600) * 1000 + 1000"
    using r by (simp add: algebra_simps)
  then show ?thesis
    unfolding q_def [symmetric] using e by simp
qed

text \<open>
  A malformed token and a token signed with another secret are answered 403 with
  \<open>Invalid token\<close>.  So is a well-signed token whose expiry has passed when
  \<open>jwt.verify\<close> reads the clock: the \<open>TokenExpiredError\<close> lands in the same \<open>catch\<close>
  block.
\<close>

lemma authenticateToken_bad_token:
  assumes "index_opt (split_on (CHR '' '') h) 1 = Some t" and "t \<noteq> []"
    and "jwt_parse E t = None \<or> (\<exists>s. jwt_parse E t = Some s \<and> tok_secret s \<noteq> SECRET_KEY E)"
  shows "authenticateToken E (req\<lparr>req_authorization := Some h\<rparr>) t1 t2 =
      Respond (Response 403 (JsonError ''Invalid token''))"
  using assms by (auto simp: authenticateToken_def truthy_def jwt_verify_def)

lemma authenticateToken_expired:
  assumes "index_opt (split_on (CHR '' '') h) 1 = Some t" and "t \<noteq> []"
    and "jwt_parse E t = Some s" and "tok_secret s = SECRET_KEY E"
    and "jwt_exp (tok_payload s) = Some e" and "e \<le> t1 div 1000"
  shows "authenticateToken E (req\<lparr>req_authorization := Some h\<rparr>) t1 t2 =
      Respond (Response 403 (JsonError ''Invalid token''))"
  using assms by (simp add: authenticateToken_def truthy_def jwt_verify_def)

text \<open>
  The answer \<open>Token expired, please log in again\<close> is sent only when the token was
  still valid at the clock reading of \<open>jwt.verify\<close> and its expiry lies strictly before
  the second reading; never when both readings agree.
\<close>

lemma authenticateToken_expired_message_iff:
  "authenticateToken E req t1 t2 =
      Respond (Response 403 (JsonError ''Token expired, please log in again''))
   \<longleftrightarrow> (\<exists>h t s e. req_authorization req = Some h
          \<and> index_opt (split_on (CHR '' '') h) 1 = Some t \<and> t \<noteq> []
          \<and> jwt_parse E t = Some s \<and> tok_secret s = SECRET_KEY E
          \<and> jwt_exp (tok_payload s) = Some e \<and> t1 div 1000 < e \<and> e * 1000 < t2)"
  by (auto simp: authenticateToken_def truthy_def jwt_verify_def exp_passed_def Let_def
      split: option.splits if_splits sum.splits)

lemma same_clock_never_expired_message:
  "authenticateToken E req now now \<noteq>
      Respond (Response 403 (JsonError ''Token expired, please log in again''))"
proof
  assume "authenticateToken E req now now =
      Respond (Response 403 (JsonError ''Token expired, please log in again''))"
  then obtain e :: nat where "now div 1000 < e" "e * 1000 < now"
    unfolding authenticateToken_expired_message_iff by blast
  then have "now div 1000 * 1000 + 1000 \<le> e * 1000" by simp
  moreover have "now < now div 1000 * 1000 + 1000"
    using exp_bounds [of now] by simp
  ultimately show False
    using \<open>e * 1000 < now\<close> by simp
qed

text \<open>
  Claim C3, at the input where it fails.  The token \<open>''tok''\<close> is signed with the
  server's secret and expires at second 4834; presented at millisecond 5000000 it is
  rejected by \<open>jwt.verify\<close> as expired, and the middleware answers 403 with
  \<open>Invalid token\<close> instead of the expired-token message.
\<close>

theorem authenticateToken_expired_token_invalid:
  "jwt_verify example_env ''tok'' (SECRET_KEY example_env) 5000000 = Inl TokenExpiredError
   \<and> authenticateToken example_env
        (example_request\<lparr>req_authorization := Some ''Bearer tok''\<rparr>) 5000000 5000000 =
      Respond (Response 403 (JsonError ''Invalid token''))"
  by (simp add: authenticateToken_def jwt_verify_def truthy_def index_opt_def
      example_env_def example_token_def)

section \<open>Login\<close>

text \<open>
  Claim C6.  A login with a user name that no administrator has and a login with a known
  user name and a password that bcrypt does not accept get the same answer: 401 with
  the message \<open>Invalid username or password\<close>.
\<close>

theorem login_failure_undifferentiated:
  assumes unknown: "find (\<lambda>a. admin_username a = u1) (admin_tbl w1) = None"
    and known: "find (\<lambda>a. admin_username a = u2) (admin_tbl w2) = Some a"
    and wrong: "\<not> bcrypt_compare E p2 (admin_password a)"
    and r1: "req_body r1 ''username'' = Some u1"
    and r2: "req_body r2 ''username'' = Some u2" "req_body r2 ''password'' = Some p2"
  shows "login E r1 w1 = (Sent (Response 401 (JsonError ''Invalid username or password'')), w1)
       \<and> login E r2 w2 = (Sent (Response 401 (JsonError ''Invalid username or password'')), w2)
       \<and> fst (login E r1 w1) = fst (login E r2 w2)"
  using assms by (simp add: login_def)

text \<open>
  The claim at the example: \<open>nobody\<close> is unknown, \<open>admin\<close> has another password.
\<close>

theorem login_failure_undifferentiated_witness:
  "fst (login example_env
          (example_request\<lparr>req_body := [''username'' \<mapsto> ''nobody'', ''password'' \<mapsto> ''secret'']\<rparr>)
          example_world)
   = fst (login example_env
          (example_request\<lparr>req_body := [''username'' \<mapsto> ''admin'', ''password'' \<mapsto> ''wrong'']\<rparr>)
          example_world)
   \<and> fst (login example_env
          (example_request\<lparr>req_body := [''username'' \<mapsto> ''admin'', ''password'' \<mapsto> ''wrong'']\<rparr>)
          example_world)
   = Sent (Response 401 (JsonError ''Invalid username or password''))"
proof -
  let ?a = "\<lparr>admin_id = 1, admin_username = ''admin'', admin_password = ''#secret''\<rparr>"
  have unknown: "find (\<lambda>a. admin_username a = ''nobody'') (admin_tbl example_world) = None"
    by (simp add: example_world_def)
  have known: "find (\<lambda>a. admin_username a = ''admin'') (admin_tbl example_world) = Some ?a"
    by (simp add: example_world_def)
  have wrong: "\<not> bcrypt_compare example_env ''wrong'' (admin_password ?a)"
    by (simp add: example_env_def)
  show ?thesis
    using login_failure_undifferentiated [OF unknown known wrong,
        of "example_request\<lparr>req_body := [''username'' \<mapsto> ''nobody'', ''password'' \<mapsto> ''secret'']\<rparr>"
           "example_request\<lparr>req_body := [''username'' \<mapsto> ''admin'', ''password'' \<mapsto> ''wrong'']\<rparr>"]
    by simp
qed

text \<open>
  Claim C7.  A login with the right credentials is answered 200 with the token that the
  library serialises from the server's secret and the payload made of the
  administrator's id, \<open>iat\<close>, the time of issuance in whole seconds, and
  \<open>exp = iat + 3600\<close>.  With a token library that reads back whatever it serialises, the
  token therefore decodes to the administrator's id and to an expiry exactly one hour
  after \<open>iat\<close>, which in milliseconds is at most one hour and less than a second short
  of one hour after the clock reading, and the token verifies at the time of issuance.
\<close>

theorem login_success_token:
  assumes user: "req_body req ''username'' = Some u"
    and pass: "req_body req ''password'' = Some p"
    and found: "find (\<lambda>a. admin_username a = u) (admin_tbl w) = Some a"
    and valid: "bcrypt_compare E p (admin_password a)"
    and lib: "\<And>t. jwt_parse E (jwt_encode E t) = Some t"
  shows "login E req w =
           (Sent (Response 200 (JsonToken (jwt_encode E
              \<lparr>tok_secret = SECRET_KEY E,
               tok_payload = \<lparr>jwt_id = admin_id a, jwt_iat = clock w div 1000,
                              jwt_exp = Some (clock w div 1000 + 3600)\<rparr>\<rparr>))), w)
       \<and> (\<exists>token decoded e.
             fst (login E req w) = Sent (Response 200 (JsonToken token))
           \<and> jwt_decode E token = Some decoded
           \<and> jwt_id decoded = admin_id a
           \<and> jwt_exp decoded = Some e
           \<and> e = jwt_iat decoded + 3600
           \<and> jwt_iat decoded = clock w div 1000
           \<and> e * 1000 \<le> clock w + 3600000 \<and> clock w + 3600000 < e * 1000 + 1000
           \<and> jwt_verify E token (SECRET_KEY E) (clock w) = Inr decoded)"
proof -
  let ?pl = "\<lparr>jwt_id = admin_id a, jwt_iat = clock w div 1000,
                jwt_exp = Some (clock w div 1000 + 3600)\<rparr>"
  let ?tok = "jwt_encode E \<lparr>tok_secret = SECRET_KEY E, tok_payload = ?pl\<rparr>"
  have l: "login E req w = (Sent (Response 200 (JsonToken ?tok)), w)"
    using user pass found valid by (simp add: login_def jwt_sign_def)
  have d: "jwt_decode E ?tok = Some ?pl"
    by (simp add: jwt_decode_def lib)
  have v: "jwt_verify E ?tok (SECRET_KEY E) (clock w) = Inr ?pl"
    by (simp add: jwt_verify_def lib)
  note b = exp_bounds [of "clock w"]
  have "fst (login E req w) = Sent (Response 200 (JsonToken ?tok))
      \<and> jwt_decode E ?tok = Some ?pl
      \<and> jwt_id ?pl = admin_id a
      \<and> jwt_exp ?pl = Some (clock w div 1000 + 3600)
      \<and> clock w div 1000 + 3600 = jwt_iat ?pl + 3600
      \<and> jwt_iat ?pl = clock w div 1000
      \<and> (clock w div 1000 + 3600) * 1000 \<le> clock w + 3600000
      \<and> clock w + 3600000 < (clock w div 1000 + 3600) * 1000 + 1000
      \<and> jwt_verify E ?tok (SECRET_KEY E) (clock w) = Inr ?pl"
    using l d v b by simp
  then have "\<exists>token decoded e.
             fst (login E req w) = Sent (Response 200 (JsonToken token))
           \<and> jwt_decode E token = Some decoded
           \<and> jwt_id decoded = admin_id a
           \<and> jwt_exp decoded = Some e
           \<and> e = jwt_iat decoded + 3600
           \<and> jwt_iat decoded = clock w div 1000
           \<and> e * 1000 \<le> clock w + 3600000 \<and> clock w + 3600000 < e * 1000 + 1000
           \<and> jwt_verify E token (SECRET_KEY E) (clock w) = Inr decoded"
    by blast
  with l show ?thesis
    by blast
qed

lemma read_unary_unary:
  "c \<noteq> CHR ''1'' \<Longrightarrow> read_unary (unary n @ c # r) = (n, c # r)"
  by (induction n) (simp_all add: read_unary_def unary_def)

lemma read_unary_stop: "c \<noteq> CHR ''1'' \<Longrightarrow> read_unary (c # r) = (0, c # r)"
  by (simp add: read_unary_def)

lemma codec_roundtrip: "codec_parse (codec_encode t) = Some t"
proof (cases "jwt_exp (tok_payload t)")
  case None
  then show ?thesis
    by (simp add: codec_parse_def codec_encode_def read_unary_unary read_unary_stop after_dot_def)
next
  case (Some e)
  then show ?thesis
    by (simp add: codec_parse_def codec_encode_def read_unary_unary after_dot_def)
qed

lemma codec_env_roundtrip: "jwt_parse codec_env (jwt_encode codec_env t) = Some t"
  by (simp add: codec_env_def codec_roundtrip)

text \<open>
  The claim at the example, with the token library that writes numbers in unary: issued
  at millisecond 1234567 to the administrator with id 1, the token has \<open>iat = 1234\<close> and
  \<open>exp = 4834\<close>.
\<close>

theorem login_success_token_witness:
  "(\<forall>t. jwt_parse codec_env (jwt_encode codec_env t) = Some t)
   \<and> (\<exists>token.
         fst (login codec_env
           (example_request\<lparr>req_body := [''username'' \<mapsto> ''admin'', ''password'' \<mapsto> ''secret'']\<rparr>)
           example_world) = Sent (Response 200 (JsonToken token))
       \<and> map_option jwt_id (jwt_decode codec_env token) = Some 1
       \<and> map_option jwt_iat (jwt_decode codec_env token) = Some 1234
       \<and> map_option jwt_exp (jwt_decode codec_env token) = Some (Some 4834))"
proof -
  let ?a = "\<lparr>admin_id = 1, admin_username = ''admin'', admin_password = ''#secret''\<rparr>"
  let ?req = "example_request\<lparr>req_body := [''username'' \<mapsto> ''admin'', ''password'' \<mapsto> ''secret'']\<rparr>"
  have user: "req_body ?req ''username'' = Some ''admin''"
    and pass: "req_body ?req ''password'' = Some ''secret''"
    by simp_all
  have found: "find (\<lambda>a. admin_username a = ''admin'') (admin_tbl example_world) = Some ?a"
    by (simp add: example_world_def)
  have valid: "bcrypt_compare codec_env ''secret'' (admin_password ?a)"
    by (simp add: codec_env_def example_env_def)
  have c: "clock example_world div 1000 = 1234"
    by (simp add: example_world_def)
  from login_success_token [OF user pass found valid codec_env_roundtrip]
  obtain token decoded e where
    r: "fst (login codec_env ?req example_world) = Sent (Response 200 (JsonToken token))"
      "jwt_decode codec_env token = Some decoded"
      "jwt_id decoded = admin_id ?a" "jwt_exp decoded = Some e" "e = jwt_iat decoded + 3600"
      "jwt_iat decoded = clock example_world div 1000"
    by blast
  from r(3,4,5,6) have "jwt_id decoded = 1" "jwt_iat decoded = 1234" "jwt_exp decoded = Some 4834"
    by (simp_all add: c)
  with r(1,2) have "\<exists>token.
         fst (login codec_env ?req example_world) = Sent (Response 200 (JsonToken token))
       \<and> map_option jwt_id (jwt_decode codec_env token) = Some 1
       \<and> map_option jwt_iat (jwt_decode codec_env token) = Some 1234
       \<and> map_option jwt_exp (jwt_decode codec_env token) = Some (Some 4834)"
    by auto
  then show ?thesis
    using codec_env_roundtrip by blast
qed

section \<open>Updates that carry a file\<close>

lemma upload_replacing_None: "upload_replacing E None init old w = (Inr init, w)"
  by (simp add: upload_replacing_def)

lemma delete_if_set_calls:
  "calls (snd (delete_if_set E old w)) =
     calls w @ (case old of None \<Rightarrow> [] | Some u \<Rightarrow> if u = [] then [] else [DeleteCall u])"
  by (simp add: delete_if_set_def truthy_def deleteFromSupabase_cases
      split: option.split sum.split)

text \<open>The blob helpers change the call log and the bucket, and nothing else.\<close>

lemma delete_if_set_world:
  "snd (delete_if_set E old w) =
     w\<lparr>calls := calls (snd (delete_if_set E old w)),
       bucket := bucket (snd (delete_if_set E old w))\<rparr>"
  by (simp add: delete_if_set_def deleteFromSupabase_cases split: option.split sum.split)

lemma upload_replacing_world:
  "snd (upload_replacing E fl init old w) =
     w\<lparr>calls := calls (snd (upload_replacing E fl init old w)),
       bucket := bucket (snd (upload_replacing E fl init old w))\<rparr>"
proof (cases fl)
  case None
  then show ?thesis
    by (simp add: upload_replacing_None)
next
  case (Some f)
  obtain r w1 where u: "uploadToSupabase E f w = (r, w1)"
    by (cases "uploadToSupabase E f w")
  note w1 = uploadToSupabase_world [OF u]
  from arg_cong [OF w1, of calls] have c1: "calls w1 = calls w @ [UploadCall f]"
    by simp
  have w1': "w1 = w\<lparr>calls := calls w1, bucket := bucket w1\<rparr>"
    unfolding c1 by (rule w1)
  show ?thesis
  proof (cases r)
    case (Inl e)
    then show ?thesis
      using w1' by (simp add: upload_replacing_def Some u)
  next
    case (Inr url)
    obtain r2 w2 where d: "delete_if_set E old w1 = (r2, w2)"
      by (cases "delete_if_set E old w1")
    have "w2 = w1\<lparr>calls := calls w2, bucket := bucket w2\<rparr>"
      using delete_if_set_world [of E old w1] by (simp add: d)
    also have "w1\<lparr>calls := calls w2, bucket := bucket w2\<rparr> =
        w\<lparr>calls := calls w2, bucket := bucket w2\<rparr>"
      by (subst w1) simp
    finally have w2: "w2 = w\<lparr>calls := calls w2, bucket := bucket w2\<rparr>" .
    have "snd (upload_replacing E fl init old w) = w2"
      by (simp add: upload_replacing_def Some u Inr d split: sum.split)
    with w2 show ?thesis
      by simp
  qed
qed

lemma upload_replacing_file:
  assumes up: "uploadToSupabase E f w = (Inr url, w1)"
  shows "calls (snd (upload_replacing E (Some f) init old w)) =
       calls w @ UploadCall f #
            (case old of None \<Rightarrow> [] | Some u \<Rightarrow> if u = [] then [] else [DeleteCall u])"
    and "fst (delete_if_set E old w1) = Inr () \<Longrightarrow>
         fst (upload_replacing E (Some f) init old w) = Inr (Some url)"
    and "fst (upload_replacing E (Some f) init old w) = Inr v \<Longrightarrow> v = Some url"
    and "fst (upload_replacing E (Some f) init old w) = Inr v \<Longrightarrow>
         fst (delete_if_set E old w1) = Inr ()"
proof -
  obtain key where u: "w1 = w\<lparr>calls := calls w @ [UploadCall f],
                bucket := (bucket w)(key \<mapsto> (buffer f, mimetype f))\<rparr>"
    using uploadToSupabase_Inr [OF up] by blast
  obtain res w2 where d: "delete_if_set E old w1 = (res, w2)"
    by (cases "delete_if_set E old w1")
  have w2: "calls w2 = calls w1 @
          (case old of None \<Rightarrow> [] | Some u \<Rightarrow> if u = [] then [] else [DeleteCall u])"
    using delete_if_set_calls [of E old w1] by (simp add: d)
  have r: "upload_replacing E (Some f) init old w =
      (case res of Inl e \<Rightarrow> (Inl e, w2) | Inr x \<Rightarrow> (Inr (Some url), w2))"
    by (simp add: upload_replacing_def up d split: sum.split)
  have s: "snd (upload_replacing E (Some f) init old w) = w2"
    by (simp add: r split: sum.split)
  show "calls (snd (upload_replacing E (Some f) init old w)) =
       calls w @ UploadCall f #
            (case old of None \<Rightarrow> [] | Some u \<Rightarrow> if u = [] then [] else [DeleteCall u])"
    unfolding s w2 by (simp add: u)
  show "fst (delete_if_set E old w1) = Inr () \<Longrightarrow>
         fst (upload_replacing E (Some f) init old w) = Inr (Some url)"
    by (simp add: r d)
  show "fst (upload_replacing E (Some f) init old w) = Inr v \<Longrightarrow> v = Some url"
    by (simp add: r split: sum.splits)
  show "fst (upload_replacing E (Some f) init old w) = Inr v \<Longrightarrow>
         fst (delete_if_set E old w1) = Inr ()"
    by (simp add: r d split: sum.splits)
qed

lemma js_or_url: "uploadToSupabase E f w = (Inr url, w1) \<Longrightarrow> js_or (Some url) old = Some url"
proof -
  assume "uploadToSupabase E f w = (Inr url, w1)"
  then have "url = getPublicUrl E (uniqueFilename (clock w) f)"
    by (rule uploadToSupabase_Inr)
  then show ?thesis
    using getPublicUrl_nonempty [of E] by (simp add: js_or_def truthy_def)
qed

text \<open>
  Each update handler, on an existing row and a request with a file whose upload
  succeeds: the blob helper calls it makes, the row it stores when the deletion of the
  old file and the database update succeed, and how it fails, leaving the row as it was,
  when they do not.
\<close>

lemma put_news_with_file:
  assumes ok: "int4 (req_id req)" and row: "news_tbl w (req_id req) = Some x"
    and att: "req_file req = Some f" and up: "uploadToSupabase E f w = (Inr url, w1)"
  shows "calls (snd (put_news E req w)) =
           calls w @ UploadCall f #
             (case news_image x of None \<Rightarrow> [] | Some u \<Rightarrow> if u = [] then [] else [DeleteCall u])"
    and "fst (delete_if_set E (news_image x) w1) = Inr () \<Longrightarrow>
         new_Date E (req_body req ''publishedAt'') \<noteq> InvalidDate \<Longrightarrow>
         \<exists>y. fst (put_news E req w) = Sent (Response 200 (JsonRow (NewsRow (req_id req) y)))
            \<and> news_tbl (snd (put_news E req w)) (req_id req) = Some y
            \<and> news_image y = Some url"
    and "fst (delete_if_set E (news_image x) w1) \<noteq> Inr () \<or> new_Date E (req_body req ''publishedAt'') = InvalidDate \<Longrightarrow>
          (\<exists>b. fst (put_news E req w) = Sent (Response 500 b))
          \<and> news_tbl (snd (put_news E req w)) (req_id req) = Some x"
proof -
  let ?R = "upload_replacing E (Some f) (None) (news_image x) w"
  note fr = upload_replacing_file [OF up, where init = "None" and old = "news_image x"]
  obtain res w2 where R: "?R = (res, w2)"
    by (cases ?R)
  have fu: "findUnique (news_tbl w) (req_id req) = Inr (Some x)"
    using ok row by (simp add: findUnique_def)
  have w2: "calls w2 = calls w @ UploadCall f #
             (case news_image x of None \<Rightarrow> [] | Some u \<Rightarrow> if u = [] then [] else [DeleteCall u])"
    using fr(1) by (simp add: R)
  from arg_cong [OF upload_replacing_world [of E "Some f" "None" "news_image x" w], of news_tbl]
  have tbl: "news_tbl w2 = news_tbl w"
    by (simp add: R)
  have v: "\<And>v. res = Inr v \<Longrightarrow> v = Some url"
    using fr(3) by (simp add: R)
  have dl: "\<And>v. res = Inr v \<Longrightarrow> fst (delete_if_set E (news_image x) w1) = Inr ()"
    using fr(4) by (simp add: R)
  show "calls (snd (put_news E req w)) =
           calls w @ UploadCall f #
             (case news_image x of None \<Rightarrow> [] | Some u \<Rightarrow> if u = [] then [] else [DeleteCall u])"
    using w2 v
    by (cases res)
       (simp_all add: put_news_def fu att R failure_def ok_row_def Let_def js_or_url [OF up]
          split: js_date.split)
  show "\<exists>y. fst (put_news E req w) = Sent (Response 200 (JsonRow (NewsRow (req_id req) y)))
            \<and> news_tbl (snd (put_news E req w)) (req_id req) = Some y
            \<and> news_image y = Some url"
    if del: "fst (delete_if_set E (news_image x) w1) = Inr ()" and date: "new_Date E (req_body req ''publishedAt'') \<noteq> InvalidDate"
  proof -
    from fr(2) [OF del] R have res: "res = Inr (Some url)" by simp
    from date obtain d where d: "new_Date E (req_body req ''publishedAt'') = ValidDate d"
      by (cases "new_Date E (req_body req ''publishedAt'')") simp_all
    show ?thesis
      by (simp add: put_news_def fu att R failure_def ok_row_def Let_def js_or_url [OF up] res d)
  qed
  show "(\<exists>b. fst (put_news E req w) = Sent (Response 500 b))
          \<and> news_tbl (snd (put_news E req w)) (req_id req) = Some x"
    if bad: "fst (delete_if_set E (news_image x) w1) \<noteq> Inr () \<or> new_Date E (req_body req ''publishedAt'') = InvalidDate"
  proof (cases res)
    case (Inl e)
    then show ?thesis
      by (simp add: put_news_def fu att R failure_def ok_row_def Let_def js_or_url [OF up] tbl row)
  next
    case (Inr u)
    with dl bad have d: "new_Date E (req_body req ''publishedAt'') = InvalidDate"
      by simp
    from v Inr have "res = Inr (Some url)"
      by simp
    then show ?thesis
      by (simp add: put_news_def fu att R failure_def ok_row_def Let_def js_or_url [OF up] d tbl row)
  qed
qed

lemma put_hero_with_file:
  assumes ok: "int4 (req_id req)" and row: "hero_tbl w (req_id req) = Some x"
    and att: "req_file req = Some f" and up: "uploadToSupabase E f w = (Inr url, w1)"
  shows "calls (snd (put_hero E req w)) =
           calls w @ UploadCall f #
             (case Some (hero_image x) of None \<Rightarrow> [] | Some u \<Rightarrow> if u = [] then [] else [DeleteCall u])"
    and "fst (delete_if_set E (Some (hero_image x)) w1) = Inr () \<Longrightarrow>
         \<exists>y. fst (put_hero E req w) = Sent (Response 200 (JsonRow (HeroRow (req_id req) y)))
            \<and> hero_tbl (snd (put_hero E req w)) (req_id req) = Some y
            \<and> Some (hero_image y) = Some url"
    and "fst (delete_if_set E (Some (hero_image x)) w1) \<noteq> Inr () \<Longrightarrow>
          (\<exists>b. fst (put_hero E req w) = Sent (Response 500 b))
          \<and> hero_tbl (snd (put_hero E req w)) (req_id req) = Some x"
proof -
  let ?R = "upload_replacing E (Some f) (None) (Some (hero_image x)) w"
  note fr = upload_replacing_file [OF up, where init = "None" and old = "Some (hero_image x)"]
  obtain res w2 where R: "?R = (res, w2)"
    by (cases ?R)
  have fu: "findUnique (hero_tbl w) (req_id req) = Inr (Some x)"
    using ok row by (simp add: findUnique_def)
  have w2: "calls w2 = calls w @ UploadCall f #
             (case Some (hero_image x) of None \<Rightarrow> [] | Some u \<Rightarrow> if u = [] then [] else [DeleteCall u])"
    using fr(1) by (simp add: R)
  from arg_cong [OF upload_replacing_world [of E "Some f" "None" "Some (hero_image x)" w], of hero_tbl]
  have tbl: "hero_tbl w2 = hero_tbl w"
    by (simp add: R)
  have v: "\<And>v. res = Inr v \<Longrightarrow> v = Some url"
    using fr(3) by (simp add: R)
  have dl: "\<And>v. res = Inr v \<Longrightarrow> fst (delete_if_set E (Some (hero_image x)) w1) = Inr ()"
    using fr(4) by (simp add: R)
  show "calls (snd (put_hero E req w)) =
           calls w @ UploadCall f #
             (case Some (hero_image x) of None \<Rightarrow> [] | Some u \<Rightarrow> if u = [] then [] else [DeleteCall u])"
    using w2 v
    by (cases res)
       (simp_all add: put_hero_def fu att R failure_def ok_row_def Let_def js_or_url [OF up]
          split: js_date.split)
  show "\<exists>y. fst (put_hero E req w) = Sent (Response 200 (JsonRow (HeroRow (req_id req) y)))
            \<and> hero_tbl (snd (put_hero E req w)) (req_id req) = Some y
            \<and> Some (hero_image y) = Some url"
    if del: "fst (delete_if_set E (Some (hero_image x)) w1) = Inr ()"
  proof -
    from fr(2) [OF del] R have res: "res = Inr (Some url)" by simp
    show ?thesis
      by (simp add: put_hero_def fu att R failure_def ok_row_def Let_def js_or_url [OF up] res)
  qed
  show "(\<exists>b. fst (put_hero E req w) = Sent (Response 500 b))
          \<and> hero_tbl (snd (put_hero E req w)) (req_id req) = Some x"
    if bad: "fst (delete_if_set E (Some (hero_image x)) w1) \<noteq> Inr ()"
  proof (cases res)
    case (Inl e)
    then show ?thesis
      by (simp add: put_hero_def fu att R failure_def ok_row_def Let_def js_or_url [OF up] tbl row)
  next
    case (Inr u)
    with dl bad show ?thesis
      by simp
  qed
qed

lemma put_extracurricular_with_file:
  assumes ok: "int4 (req_id req)" and row: "extracurricular_tbl w (req_id req) = Some x"
    and att: "req_file req = Some f" and up: "uploadToSupabase E f w = (Inr url, w1)"
  shows "calls (snd (put_extracurricular E req w)) =
           calls w @ UploadCall f #
             (case ex_image x of None \<Rightarrow> [] | Some u \<Rightarrow> if u = [] then [] else [DeleteCall u])"
    and "fst (delete_if_set E (ex_image x) w1) = Inr () \<Longrightarrow>
         \<exists>y. fst (put_extracurricular E req w) = Sent (Response 200 (JsonRow (ExtracurricularRow (req_id req) y)))
            \<and> extracurricular_tbl (snd (put_extracurricular E req w)) (req_id req) = Some y
            \<and> ex_image y = Some url"
    and "fst (delete_if_set E (ex_image x) w1) \<noteq> Inr () \<Longrightarrow>
          (\<exists>b. fst (put_extracurricular E req w) = Sent (Response 500 b))
          \<and> extracurricular_tbl (snd (put_extracurricular E req w)) (req_id req) = Some x"
proof -
  let ?R = "upload_replacing E (Some f) (None) (ex_image x) w"
  note fr = upload_replacing_file [OF up, where init = "None" and old = "ex_image x"]
  obtain res w2 where R: "?R = (res, w2)"
    by (cases ?R)
  have fu: "findUnique (extracurricular_tbl w) (req_id req) = Inr (Some x)"
    using ok row by (simp add: findUnique_def)
  have w2: "calls w2 = calls w @ UploadCall f #
             (case ex_image x of None \<Rightarrow> [] | Some u \<Rightarrow> if u = [] then [] else [DeleteCall u])"
    using fr(1) by (simp add: R)
  from arg_cong [OF upload_replacing_world [of E "Some f" "None" "ex_image x" w], of extracurricular_tbl]
  have tbl: "extracurricular_tbl w2 = extracurricular_tbl w"
    by (simp add: R)
  have v: "\<And>v. res = Inr v \<Longrightarrow> v = Some url"
    using fr(3) by (simp add: R)
  have dl: "\<And>v. res = Inr v \<Longrightarrow> fst (delete_if_set E (ex_image x) w1) = Inr ()"
    using fr(4) by (simp add: R)
  show "calls (snd (put_extracurricular E req w)) =
           calls w @ UploadCall f #
             (case ex_image x of None \<Rightarrow> [] | Some u \<Rightarrow> if u = [] then [] else [DeleteCall u])"
    using w2 v
    by (cases res)
       (simp_all add: put_extracurricular_def fu att R failure_def ok_row_def Let_def js_or_url [OF up]
          split: js_date.split)
  show "\<exists>y. fst (put_extracurricular E req w) = Sent (Response 200 (JsonRow (ExtracurricularRow (req_id req) y)))
            \<and> extracurricular_tbl (snd (put_extracurricular E req w)) (req_id req) = Some y
            \<and> ex_image y = Some url"
    if del: "fst (delete_if_set E (ex_image x) w1) = Inr ()"
  proof -
    from fr(2) [OF del] R have res: "res = Inr (Some url)" by simp
    show ?thesis
      by (simp add: put_extracurricular_def fu att R failure_def ok_row_def Let_def js_or_url [OF up] res)
  qed
  show "(\<exists>b. fst (put_extracurricular E req w) = Sent (Response 500 b))
          \<and> extracurricular_tbl (snd (put_extracurricular E req w)) (req_id req) = Some x"
    if bad: "fst (delete_if_set E (ex_image x) w1) \<noteq> Inr ()"
  proof (cases res)
    case (Inl e)
    then show ?thesis
      by (simp add: put_extracurricular_def fu att R failure_def ok_row_def Let_def js_or_url [OF up] tbl row)
  next
    case (Inr u)
    with dl bad show ?thesis
      by simp
  qed
qed

lemma put_kalender_with_file:
  assumes ok: "int4 (req_id req)" and row: "kalender_tbl w (req_id req) = Some x"
    and att: "req_file req = Some f" and up: "uploadToSupabase E f w = (Inr url, w1)"
  shows "calls (snd (put_kalender E req w)) =
           calls w @ UploadCall f #
             (case Some (kal_file x) of None \<Rightarrow> [] | Some u \<Rightarrow> if u = [] then [] else [DeleteCall u])"
    and "fst (delete_if_set E (Some (kal_file x)) w1) = Inr () \<Longrightarrow>
         \<exists>y. fst (put_kalender E req w) = Sent (Response 200 (JsonRow (KalenderRow (req_id req) y)))
            \<and> kalender_tbl (snd (put_kalender E req w)) (req_id req) = Some y
            \<and> Some (kal_file y) = Some url"
    and "fst (delete_if_set E (Some (kal_file x)) w1) \<noteq> Inr () \<Longrightarrow>
          (\<exists>b. fst (put_kalender E req w) = Sent (Response 500 b))
          \<and> kalender_tbl (snd (put_kalender E req w)) (req_id req) = Some x"
proof -
  let ?R = "upload_replacing E (Some f) (Some (kal_file x)) (Some (kal_file x)) w"
  note fr = upload_replacing_file [OF up, where init = "Some (kal_file x)" and old = "Some (kal_file x)"]
  obtain res w2 where R: "?R = (res, w2)"
    by (cases ?R)
  have fu: "findUnique (kalender_tbl w) (req_id req) = Inr (Some x)"
    using ok row by (simp add: findUnique_def)
  have w2: "calls w2 = calls w @ UploadCall f #
             (case Some (kal_file x) of None \<Rightarrow> [] | Some u \<Rightarrow> if u = [] then [] else [DeleteCall u])"
    using fr(1) by (simp add: R)
  from arg_cong [OF upload_replacing_world [of E "Some f" "Some (kal_file x)" "Some (kal_file x)" w], of kalender_tbl]
  have tbl: "kalender_tbl w2 = kalender_tbl w"
    by (simp add: R)
  have v: "\<And>v. res = Inr v \<Longrightarrow> v = Some url"
    using fr(3) by (simp add: R)
  have dl: "\<And>v. res = Inr v \<Longrightarrow> fst (delete_if_set E (Some (kal_file x)) w1) = Inr ()"
    using fr(4) by (simp add: R)
  show "calls (snd (put_kalender E req w)) =
           calls w @ UploadCall f #
             (case Some (kal_file x) of None \<Rightarrow> [] | Some u \<Rightarrow> if u = [] then [] else [DeleteCall u])"
    using w2 v
    by (cases res)
       (simp_all add: put_kalender_def fu att R failure_def ok_row_def Let_def js_or_url [OF up]
          split: js_date.split)
  show "\<exists>y. fst (put_kalender E req w) = Sent (Response 200 (JsonRow (KalenderRow (req_id req) y)))
            \<and> kalender_tbl (snd (put_kalender E req w)) (req_id req) = Some y
            \<and> Some (kal_file y) = Some url"
    if del: "fst (delete_if_set E (Some (kal_file x)) w1) = Inr ()"
  proof -
    from fr(2) [OF del] R have res: "res = Inr (Some url)" by simp
    show ?thesis
      by (simp add: put_kalender_def fu att R failure_def ok_row_def Let_def js_or_url [OF up] res)
  qed
  show "(\<exists>b. fst (put_kalender E req w) = Sent (Response 500 b))
          \<and> kalender_tbl (snd (put_kalender E req w)) (req_id req) = Some x"
    if bad: "fst (delete_if_set E (Some (kal_file x)) w1) \<noteq> Inr ()"
  proof (cases res)
    case (Inl e)
    then show ?thesis
      by (simp add: put_kalender_def fu att R failure_def ok_row_def Let_def js_or_url [OF up] tbl row)
  next
    case (Inr u)
    with dl bad show ?thesis
      by simp
  qed
qed

lemma put_alumni_with_file:
  assumes ok: "int4 (req_id req)" and row: "alumni_tbl w (req_id req) = Some x"
    and att: "req_file req = Some f" and up: "uploadToSupabase E f w = (Inr url, w1)"
  shows "calls (snd (put_alumni E req w)) =
           calls w @ UploadCall f #
             (case al_image x of None \<Rightarrow> [] | Some u \<Rightarrow> if u = [] then [] else [DeleteCall u])"
    and "fst (delete_if_set E (al_image x) w1) = Inr () \<Longrightarrow>
         \<exists>y. fst (put_alumni E req w) = Sent (Response 200 (JsonRow (AlumniRow (req_id req) y)))
            \<and> alumni_tbl (snd (put_alumni E req w)) (req_id req) = Some y
            \<and> al_image y = Some url"
    and "fst (delete_if_set E (al_image x) w1) \<noteq> Inr () \<Longrightarrow>
          (\<exists>b. fst (put_alumni E req w) = Sent (Response 500 b))
          \<and> alumni_tbl (snd (put_alumni E req w)) (req_id req) = Some x"
proof -
  let ?R = "upload_replacing E (Some f) (None) (al_image x) w"
  note fr = upload_replacing_file [OF up, where init = "None" and old = "al_image x"]
  obtain res w2 where R: "?R = (res, w2)"
    by (cases ?R)
  have fu: "findUnique (alumni_tbl w) (req_id req) = Inr (Some x)"
    using ok row by (simp add: findUnique_def)
  have w2: "calls w2 = calls w @ UploadCall f #
             (case al_image x of None \<Rightarrow> [] | Some u \<Rightarrow> if u = [] then [] else [DeleteCall u])"
    using fr(1) by (simp add: R)
  from arg_cong [OF upload_replacing_world [of E "Some f" "None" "al_image x" w], of alumni_tbl]
  have tbl: "alumni_tbl w2 = alumni_tbl w"
    by (simp add: R)
  have v: "\<And>v. res = Inr v \<Longrightarrow> v = Some url"
    using fr(3) by (simp add: R)
  have dl: "\<And>v. res = Inr v \<Longrightarrow> fst (delete_if_set E (al_image x) w1) = Inr ()"
    using fr(4) by (simp add: R)
  show "calls (snd (put_alumni E req w)) =
           calls w @ UploadCall f #
             (case al_image x of None \<Rightarrow> [] | Some u \<Rightarrow> if u = [] then [] else [DeleteCall u])"
    using w2 v
    by (cases res)
       (simp_all add: put_alumni_def fu att R failure_def ok_row_def Let_def js_or_url [OF up]
          split: js_date.split)
  show "\<exists>y. fst (put_alumni E req w) = Sent (Response 200 (JsonRow (AlumniRow (req_id req) y)))
            \<and> alumni_tbl (snd (put_alumni E req w)) (req_id req) = Some y
            \<and> al_image y = Some url"
    if del: "fst (delete_if_set E (al_image x) w1) = Inr ()"
  proof -
    from fr(2) [OF del] R have res: "res = Inr (Some url)" by simp
    show ?thesis
      by (simp add: put_alumni_def fu att R failure_def ok_row_def Let_def js_or_url [OF up] res)
  qed
  show "(\<exists>b. fst (put_alumni E req w) = Sent (Response 500 b))
          \<and> alumni_tbl (snd (put_alumni E req w)) (req_id req) = Some x"
    if bad: "fst (delete_if_set E (al_image x) w1) \<noteq> Inr ()"
  proof (cases res)
    case (Inl e)
    then show ?thesis
      by (simp add: put_alumni_def fu att R failure_def ok_row_def Let_def js_or_url [OF up] tbl row)
  next
    case (Inr u)
    with dl bad show ?thesis
      by simp
  qed
qed

lemma put_galeri_with_file:
  assumes ok: "int4 (req_id req)" and row: "galeri_tbl w (req_id req) = Some x"
    and att: "req_file req = Some f" and up: "uploadToSupabase E f w = (Inr url, w1)"
  shows "calls (snd (put_galeri E req w)) =
           calls w @ UploadCall f #
             (case Some (gal_image x) of None \<Rightarrow> [] | Some u \<Rightarrow> if u = [] then [] else [DeleteCall u])"
    and "fst (delete_if_set E (Some (gal_image x)) w1) = Inr () \<Longrightarrow>
         \<exists>y. fst (put_galeri E req w) = Sent (Response 200 (JsonRow (GaleriRow (req_id req) y)))
            \<and> galeri_tbl (snd (put_galeri E req w)) (req_id req) = Some y
            \<and> Some (gal_image y) = Some url"
    and "fst (delete_if_set E (Some (gal_image x)) w1) \<noteq> Inr () \<Longrightarrow>
          (\<exists>b. fst (put_galeri E req w) = Sent (Response 500 b))
          \<and> galeri_tbl (snd (put_galeri E req w)) (req_id req) = Some x"
proof -
  let ?R = "upload_replacing E (Some f) (Some (gal_image x)) (Some (gal_image x)) w"
  note fr = upload_replacing_file [OF up, where init = "Some (gal_image x)" and old = "Some (gal_image x)"]
  obtain res w2 where R: "?R = (res, w2)"
    by (cases ?R)
  have fu: "findUnique (galeri_tbl w) (req_id req) = Inr (Some x)"
    using ok row by (simp add: findUnique_def)
  have w2: "calls w2 = calls w @ UploadCall f #
             (case Some (gal_image x) of None \<Rightarrow> [] | Some u \<Rightarrow> if u = [] then [] else [DeleteCall u])"
    using fr(1) by (simp add: R)
  from arg_cong [OF upload_replacing_world [of E "Some f" "Some (gal_image x)" "Some (gal_image x)" w], of galeri_tbl]
  have tbl: "galeri_tbl w2 = galeri_tbl w"
    by (simp add: R)
  have v: "\<And>v. res = Inr v \<Longrightarrow> v = Some url"
    using fr(3) by (simp add: R)
  have dl: "\<And>v. res = Inr v \<Longrightarrow> fst (delete_if_set E (Some (gal_image x)) w1) = Inr ()"
    using fr(4) by (simp add: R)
  show "calls (snd (put_galeri E req w)) =
           calls w @ UploadCall f #
             (case Some (gal_image x) of None \<Rightarrow> [] | Some u \<Rightarrow> if u = [] then [] else [DeleteCall u])"
    using w2 v
    by (cases res)
       (simp_all add: put_galeri_def fu att R failure_def ok_row_def Let_def js_or_url [OF up]
          split: js_date.split)
  show "\<exists>y. fst (put_galeri E req w) = Sent (Response 200 (JsonRow (GaleriRow (req_id req) y)))
            \<and> galeri_tbl (snd (put_galeri E req w)) (req_id req) = Some y
            \<and> Some (gal_image y) = Some url"
    if del: "fst (delete_if_set E (Some (gal_image x)) w1) = Inr ()"
  proof -
    from fr(2) [OF del] R have res: "res = Inr (Some url)" by simp
    show ?thesis
      by (simp add: put_galeri_def fu att R failure_def ok_row_def Let_def js_or_url [OF up] res)
  qed
  show "(\<exists>b. fst (put_galeri E req w) = Sent (Response 500 b))
          \<and> galeri_tbl (snd (put_galeri E req w)) (req_id req) = Some x"
    if bad: "fst (delete_if_set E (Some (gal_image x)) w1) \<noteq> Inr ()"
  proof (cases res)
    case (Inl e)
    then show ?thesis
      by (simp add: put_galeri_def fu att R failure_def ok_row_def Let_def js_or_url [OF up] tbl row)
  next
    case (Inr u)
    with dl bad show ?thesis
      by simp
  qed
qed

lemma put_sarana_with_file:
  assumes ok: "int4 (req_id req)" and row: "sarana_tbl w (req_id req) = Some x"
    and att: "req_file req = Some f" and up: "uploadToSupabase E f w = (Inr url, w1)"
  shows "calls (snd (put_sarana E req w)) =
           calls w @ UploadCall f #
             (case sar_image x of None \<Rightarrow> [] | Some u \<Rightarrow> if u = [] then [] else [DeleteCall u])"
    and "fst (delete_if_set E (sar_image x) w1) = Inr () \<Longrightarrow>
         \<exists>y. fst (put_sarana E req w) = Sent (Response 200 (JsonRow (SaranaRow (req_id req) y)))
            \<and> sarana_tbl (snd (put_sarana E req w)) (req_id req) = Some y
            \<and> sar_image y = Some url"
    and "fst (delete_if_set E (sar_image x) w1) \<noteq> Inr () \<Longrightarrow>
          (\<exists>b. fst (put_sarana E req w) = Sent (Response 500 b))
          \<and> sarana_tbl (snd (put_sarana E req w)) (req_id req) = Some x"
proof -
  let ?R = "upload_replacing E (Some f) (None) (sar_image x) w"
  note fr = upload_replacing_file [OF up, where init = "None" and old = "sar_image x"]
  obtain res w2 where R: "?R = (res, w2)"
    by (cases ?R)
  have fu: "findUnique (sarana_tbl w) (req_id req) = Inr (Some x)"
    using ok row by (simp add: findUnique_def)
  have w2: "calls w2 = calls w @ UploadCall f #
             (case sar_image x of None \<Rightarrow> [] | Some u \<Rightarrow> if u = [] then [] else [DeleteCall u])"
    using fr(1) by (simp add: R)
  from arg_cong [OF upload_replacing_world [of E "Some f" "None" "sar_image x" w], of sarana_tbl]
  have tbl: "sarana_tbl w2 = sarana_tbl w"
    by (simp add: R)
  have v: "\<And>v. res = Inr v \<Longrightarrow> v = Some url"
    using fr(3) by (simp add: R)
  have dl: "\<And>v. res = Inr v \<Longrightarrow> fst (delete_if_set E (sar_image x) w1) = Inr ()"
    using fr(4) by (simp add: R)
  show "calls (snd (put_sarana E req w)) =
           calls w @ UploadCall f #
             (case sar_image x of None \<Rightarrow> [] | Some u \<Rightarrow> if u = [] then [] else [DeleteCall u])"
    using w2 v
    by (cases res)
       (simp_all add: put_sarana_def fu att R failure_def ok_row_def Let_def js_or_url [OF up]
          split: js_date.split)
  show "\<exists>y. fst (put_sarana E req w) = Sent (Response 200 (JsonRow (SaranaRow (req_id req) y)))
            \<and> sarana_tbl (snd (put_sarana E req w)) (req_id req) = Some y
            \<and> sar_image y = Some url"
    if del: "fst (delete_if_set E (sar_image x) w1) = Inr ()"
  proof -
    from fr(2) [OF del] R have res: "res = Inr (Some url)" by simp
    show ?thesis
      by (simp add: put_sarana_def fu att R failure_def ok_row_def Let_def js_or_url [OF up] res)
  qed
  show "(\<exists>b. fst (put_sarana E req w) = Sent (Response 500 b))
          \<and> sarana_tbl (snd (put_sarana E req w)) (req_id req) = Some x"
    if bad: "fst (delete_if_set E (sar_image x) w1) \<noteq> Inr ()"
  proof (cases res)
    case (Inl e)
    then show ?thesis
      by (simp add: put_sarana_def fu att R failure_def ok_row_def Let_def js_or_url [OF up] tbl row)
  next
    case (Inr u)
    with dl bad show ?thesis
      by simp
  qed
qed

lemma put_headmaster_message_with_file:
  assumes ok: "int4 (req_id req)" and row: "headmaster_tbl w (req_id req) = Some x"
    and att: "req_file req = Some f" and up: "uploadToSupabase E f w = (Inr url, w1)"
  shows "calls (snd (put_headmaster_message E req w)) =
           calls w @ UploadCall f #
             (case Some (hm_image x) of None \<Rightarrow> [] | Some u \<Rightarrow> if u = [] then [] else [DeleteCall u])"
    and "fst (delete_if_set E (Some (hm_image x)) w1) = Inr () \<Longrightarrow>
         \<exists>y. fst (put_headmaster_message E req w) = Sent (Response 200 (JsonRow (HeadmasterRow (req_id req) y)))
            \<and> headmaster_tbl (snd (put_headmaster_message E req w)) (req_id req) = Some y
            \<and> Some (hm_image y) = Some url"
    and "fst (delete_if_set E (Some (hm_image x)) w1) \<noteq> Inr () \<Longrightarrow>
          (\<exists>b. fst (put_headmaster_message E req w) = Sent (Response 500 b))
          \<and> headmaster_tbl (snd (put_headmaster_message E req w)) (req_id req) = Some x"
proof -
  let ?R = "upload_replacing E (Some f) (None) (Some (hm_image x)) w"
  note fr = upload_replacing_file [OF up, where init = "None" and old = "Some (hm_image x)"]
  obtain res w2 where R: "?R = (res, w2)"
    by (cases ?R)
  have fu: "findUnique (headmaster_tbl w) (req_id req) = Inr (Some x)"
    using ok row by (simp add: findUnique_def)
  have w2: "calls w2 = calls w @ UploadCall f #
             (case Some (hm_image x) of None \<Rightarrow> [] | Some u \<Rightarrow> if u = [] then [] else [DeleteCall u])"
    using fr(1) by (simp add: R)
  from arg_cong [OF upload_replacing_world [of E "Some f" "None" "Some (hm_image x)" w], of headmaster_tbl]
  have tbl: "headmaster_tbl w2 = headmaster_tbl w"
    by (simp add: R)
  have v: "\<And>v. res = Inr v \<Longrightarrow> v = Some url"
    using fr(3) by (simp add: R)
  have dl: "\<And>v. res = Inr v \<Longrightarrow> fst (delete_if_set E (Some (hm_image x)) w1) = Inr ()"
    using fr(4) by (simp add: R)
  show "calls (snd (put_headmaster_message E req w)) =
           calls w @ UploadCall f #
             (case Some (hm_image x) of None \<Rightarrow> [] | Some u \<Rightarrow> if u = [] then [] else [DeleteCall u])"
    using w2 v
    by (cases res)
       (simp_all add: put_headmaster_message_def fu att R failure_def ok_row_def Let_def js_or_url [OF up]
          split: js_date.split)
  show "\<exists>y. fst (put_headmaster_message E req w) = Sent (Response 200 (JsonRow (HeadmasterRow (req_id req) y)))
            \<and> headmaster_tbl (snd (put_headmaster_message E req w)) (req_id req) = Some y
            \<and> Some (hm_image y) = Some url"
    if del: "fst (delete_if_set E (Some (hm_image x)) w1) = Inr ()"
  proof -
    from fr(2) [OF del] R have res: "res = Inr (Some url)" by simp
    show ?thesis
      by (simp add: put_headmaster_message_def fu att R failure_def ok_row_def Let_def js_or_url [OF up] res)
  qed
  show "(\<exists>b. fst (put_headmaster_message E req w) = Sent (Response 500 b))
          \<and> headmaster_tbl (snd (put_headmaster_message E req w)) (req_id req) = Some x"
    if bad: "fst (delete_if_set E (Some (hm_image x)) w1) \<noteq> Inr ()"
  proof (cases res)
    case (Inl e)
    then show ?thesis
      by (simp add: put_headmaster_message_def fu att R failure_def ok_row_def Let_def js_or_url [OF up] tbl row)
  next
    case (Inr u)
    with dl bad show ?thesis
      by simp
  qed
qed

lemma put_sejarah_with_file:
  assumes ok: "int4 (req_id req)" and row: "sejarah_tbl w (req_id req) = Some x"
    and att: "req_file req = Some f" and up: "uploadToSupabase E f w = (Inr url, w1)"
  shows "calls (snd (put_sejarah E req w)) =
           calls w @ UploadCall f #
             (case sej_image x of None \<Rightarrow> [] | Some u \<Rightarrow> if u = [] then [] else [DeleteCall u])"
    and "fst (delete_if_set E (sej_image x) w1) = Inr () \<Longrightarrow>
         \<exists>y. fst (put_sejarah E req w) = Sent (Response 200 (JsonRow (SejarahRow (req_id req) y)))
            \<and> sejarah_tbl (snd (put_sejarah E req w)) (req_id req) = Some y
            \<and> sej_image y = Some url"
    and "fst (delete_if_set E (sej_image x) w1) \<noteq> Inr () \<Longrightarrow>
          (\<exists>e. fst (put_sejarah E req w) = Rejected e)
          \<and> sejarah_tbl (snd (put_sejarah E req w)) (req_id req) = Some x"
proof -
  let ?R = "upload_replacing E (Some f) (sej_image x) (sej_image x) w"
  note fr = upload_replacing_file [OF up, where init = "sej_image x" and old = "sej_image x"]
  obtain res w2 where R: "?R = (res, w2)"
    by (cases ?R)
  have fu: "findUnique (sejarah_tbl w) (req_id req) = Inr (Some x)"
    using ok row by (simp add: findUnique_def)
  have w2: "calls w2 = calls w @ UploadCall f #
             (case sej_image x of None \<Rightarrow> [] | Some u \<Rightarrow> if u = [] then [] else [DeleteCall u])"
    using fr(1) by (simp add: R)
  from arg_cong [OF upload_replacing_world [of E "Some f" "sej_image x" "sej_image x" w], of sejarah_tbl]
  have tbl: "sejarah_tbl w2 = sejarah_tbl w"
    by (simp add: R)
  have v: "\<And>v. res = Inr v \<Longrightarrow> v = Some url"
    using fr(3) by (simp add: R)
  have dl: "\<And>v. res = Inr v \<Longrightarrow> fst (delete_if_set E (sej_image x) w1) = Inr ()"
    using fr(4) by (simp add: R)
  show "calls (snd (put_sejarah E req w)) =
           calls w @ UploadCall f #
             (case sej_image x of None \<Rightarrow> [] | Some u \<Rightarrow> if u = [] then [] else [DeleteCall u])"
    using w2 v
    by (cases res)
       (simp_all add: put_sejarah_def fu att R failure_def ok_row_def Let_def js_or_url [OF up]
          split: js_date.split)
  show "\<exists>y. fst (put_sejarah E req w) = Sent (Response 200 (JsonRow (SejarahRow (req_id req) y)))
            \<and> sejarah_tbl (snd (put_sejarah E req w)) (req_id req) = Some y
            \<and> sej_image y = Some url"
    if del: "fst (delete_if_set E (sej_image x) w1) = Inr ()"
  proof -
    from fr(2) [OF del] R have res: "res = Inr (Some url)" by simp
    show ?thesis
      by (simp add: put_sejarah_def fu att R failure_def ok_row_def Let_def js_or_url [OF up] res)
  qed
  show "(\<exists>e. fst (put_sejarah E req w) = Rejected e)
          \<and> sejarah_tbl (snd (put_sejarah E req w)) (req_id req) = Some x"
    if bad: "fst (delete_if_set E (sej_image x) w1) \<noteq> Inr ()"
  proof (cases res)
    case (Inl e)
    then show ?thesis
      by (simp add: put_sejarah_def fu att R failure_def ok_row_def Let_def js_or_url [OF up] tbl row)
  next
    case (Inr u)
    with dl bad show ?thesis
      by simp
  qed
qed

text \<open>
  Claim C4, as amended.  For every resource with a media field, an update of an existing
  row that carries a file whose upload succeeds calls the upload helper once and then
  the delete helper exactly once, for the previous media value, when that value is a
  non-empty string, and not at all when it is \<open>null\<close> or the empty string.  When that
  deletion succeeds (and, for news, \<open>publishedAt\<close> is a valid date, so that the database
  accepts the update) the answer is 200 with the stored row, which has the URL the upload
  returned as its media value.  In every other case, that is when the deletion fails or
  the news date is not valid, the handler answers 500 (the sejarah handler, which has no
  \<open>try\<close> block, rejects) and the row is left exactly as it was, previous media value
  included.
\<close>

theorem update_with_file:
  assumes media: "has_media r" and h: "update_handler r = Some h"
    and row: "row_of r w (req_id req) = Some x" and att: "req_file req = Some f"
    and up: "uploadToSupabase E f w = (Inr url, w1)"
  shows "calls (snd (h E req w)) =
           calls w @ UploadCall f #
             (case media_of x of None \<Rightarrow> [] | Some u \<Rightarrow> if u = [] then [] else [DeleteCall u])
       \<and> (if fst (delete_if_set E (media_of x) w1) = Inr ()
             \<and> (r = News \<longrightarrow> new_Date E (req_body req ''publishedAt'') \<noteq> InvalidDate)
          then \<exists>y. fst (h E req w) = Sent (Response 200 (JsonRow y))
                 \<and> row_of r (snd (h E req w)) (req_id req) = Some y
                 \<and> media_of y = Some url
          else failed_as r (fst (h E req w))
             \<and> row_of r (snd (h E req w)) (req_id req) = Some x)"
proof (cases r)
  case News
  from row News obtain x' where x: "x = NewsRow (req_id req) x'" "news_tbl w (req_id req) = Some x'"
    and ok: "int4 (req_id req)"
    by (auto simp: stored_def split: if_splits)
  from h News have hh: "h = put_news" by simp
  note l = put_news_with_file [OF ok x(2) att up]
  show ?thesis
    unfolding hh x(1) using l by (auto simp: News stored_def ok)
next
  case Hero
  from row Hero obtain x' where x: "x = HeroRow (req_id req) x'" "hero_tbl w (req_id req) = Some x'"
    and ok: "int4 (req_id req)"
    by (auto simp: stored_def split: if_splits)
  from h Hero have hh: "h = put_hero" by simp
  note l = put_hero_with_file [OF ok x(2) att up]
  show ?thesis
    unfolding hh x(1) using l by (auto simp: Hero stored_def ok)
next
  case Extracurriculars
  from row Extracurriculars obtain x' where x: "x = ExtracurricularRow (req_id req) x'" "extracurricular_tbl w (req_id req) = Some x'"
    and ok: "int4 (req_id req)"
    by (auto simp: stored_def split: if_splits)
  from h Extracurriculars have hh: "h = put_extracurricular" by simp
  note l = put_extracurricular_with_file [OF ok x(2) att up]
  show ?thesis
    unfolding hh x(1) using l by (auto simp: Extracurriculars stored_def ok)
next
  case Kalender
  from row Kalender obtain x' where x: "x = KalenderRow (req_id req) x'" "kalender_tbl w (req_id req) = Some x'"
    and ok: "int4 (req_id req)"
    by (auto simp: stored_def split: if_splits)
  from h Kalender have hh: "h = put_kalender" by simp
  note l = put_kalender_with_file [OF ok x(2) att up]
  show ?thesis
    unfolding hh x(1) using l by (auto simp: Kalender stored_def ok)
next
  case Alumni
  from row Alumni obtain x' where x: "x = AlumniRow (req_id req) x'" "alumni_tbl w (req_id req) = Some x'"
    and ok: "int4 (req_id req)"
    by (auto simp: stored_def split: if_splits)
  from h Alumni have hh: "h = put_alumni" by simp
  note l = put_alumni_with_file [OF ok x(2) att up]
  show ?thesis
    unfolding hh x(1) using l by (auto simp: Alumni stored_def ok)
next
  case Galeri
  from row Galeri obtain x' where x: "x = GaleriRow (req_id req) x'" "galeri_tbl w (req_id req) = Some x'"
    and ok: "int4 (req_id req)"
    by (auto simp: stored_def split: if_splits)
  from h Galeri have hh: "h = put_galeri" by simp
  note l = put_galeri_with_file [OF ok x(2) att up]
  show ?thesis
    unfolding hh x(1) using l by (auto simp: Galeri stored_def ok)
next
  case Sarana
  from row Sarana obtain x' where x: "x = SaranaRow (req_id req) x'" "sarana_tbl w (req_id req) = Some x'"
    and ok: "int4 (req_id req)"
    by (auto simp: stored_def split: if_splits)
  from h Sarana have hh: "h = put_sarana" by simp
  note l = put_sarana_with_file [OF ok x(2) att up]
  show ?thesis
    unfolding hh x(1) using l by (auto simp: Sarana stored_def ok)
next
  case HeadmasterMessage
  from row HeadmasterMessage obtain x' where x: "x = HeadmasterRow (req_id req) x'" "headmaster_tbl w (req_id req) = Some x'"
    and ok: "int4 (req_id req)"
    by (auto simp: stored_def split: if_splits)
  from h HeadmasterMessage have hh: "h = put_headmaster_message" by simp
  note l = put_headmaster_message_with_file [OF ok x(2) att up]
  show ?thesis
    unfolding hh x(1) using l by (auto simp: HeadmasterMessage stored_def ok)
next
  case Sejarah
  from row Sejarah obtain x' where x: "x = SejarahRow (req_id req) x'" "sejarah_tbl w (req_id req) = Some x'"
    and ok: "int4 (req_id req)"
    by (auto simp: stored_def split: if_splits)
  from h Sejarah have hh: "h = put_sejarah" by simp
  note l = put_sejarah_with_file [OF ok x(2) att up]
  show ?thesis
    unfolding hh x(1) using l by (auto simp: Sejarah stored_def ok)
next
  case VisiMisi
  with media show ?thesis by simp
next
  case Contacts
  with media show ?thesis by simp
qed

lemma example_old_path:
  "filePath example_env ''https://p.supabase.co/storage/v1/object/public/uploads/5-old.png'' =
     Inr ''5-old.png''"
proof -
  have p: "''https://p.supabase.co/storage/v1/object/public/uploads/5-old.png'' =
      public_prefix example_env @ ''5-old.png''"
    by (simp add: public_prefix_def BUCKET_NAME_def example_env_def)
  have d: "decodeURIComponent
      ''https://p.supabase.co/storage/v1/object/public/uploads/5-old.png'' =
      Inr ''https://p.supabase.co/storage/v1/object/public/uploads/5-old.png''"
    by (rule decode_plain) simp
  show ?thesis
    unfolding filePath_def d by (simp only: sum.case p replace_first_prefix)
qed

lemma example_date: "new_Date example_env (Some ''2024-01-01'') = ValidDate 1704067200000"
  by (simp add: new_Date_def example_env_def)

lemma example_upload_at:
  assumes "clock w = 1234567" and "\<not> upload_fault w" and "bucket w ''1234567-a b.png'' = None"
  shows "uploadToSupabase example_env example_file w =
     (Inr ''https://p.supabase.co/storage/v1/object/public/uploads/1234567-a%20b.png'',
      w\<lparr>calls := calls w @ [UploadCall example_file],
        bucket := (bucket w)(''1234567-a b.png'' \<mapsto> (''PNG'', ''image/png''))\<rparr>)"
proof -
  have c: "decimal (clock w) = ''1234567''"
    using example_clock assms(1) by (simp add: example_world_def)
  have n: "uniqueFilename (clock w) example_file = ''1234567-a b.png''"
    by (simp add: uniqueFilename_def c example_file_def)
  have k: "request_key ''1234567-a b.png'' = Inr ''1234567-a b.png''"
    by (rule request_key_clean) (simp_all add: example_input)
  have o: "buffer example_file = ''PNG''" "mimetype example_file = ''image/png''"
    by (simp_all add: example_file_def)
  show ?thesis
    using assms(2,3) by (simp add: uploadToSupabase_cases n example_url k o)
qed

text \<open>
  The amended claim at the example: news 2 has an image, the update replaces it.
\<close>

theorem update_with_file_witness:
  "calls (snd (put_news example_env
       (example_request\<lparr>req_id := 2, req_body := [''publishedAt'' \<mapsto> ''2024-01-01''],
          req_file := Some example_file\<rparr>) example_world)) =
     [UploadCall example_file,
      DeleteCall ''https://p.supabase.co/storage/v1/object/public/uploads/5-old.png'']
   \<and> map_option news_image (news_tbl (snd (put_news example_env
       (example_request\<lparr>req_id := 2, req_body := [''publishedAt'' \<mapsto> ''2024-01-01''],
          req_file := Some example_file\<rparr>) example_world)) 2) =
     Some (Some ''https://p.supabase.co/storage/v1/object/public/uploads/1234567-a%20b.png'')"
proof -
  let ?req = "example_request\<lparr>req_id := 2, req_body := [''publishedAt'' \<mapsto> ''2024-01-01''],
          req_file := Some example_file\<rparr>"
  let ?old = "''https://p.supabase.co/storage/v1/object/public/uploads/5-old.png''"
  let ?x = "NewsRow 2 \<lparr>news_title = ''C'', news_description = ''D'', news_image = Some ?old,
                news_publishedAt = 1704067200000\<rparr>"
  let ?w1 = "snd (uploadToSupabase example_env example_file example_world)"
  have media: "has_media News" and h: "update_handler News = Some put_news"
    by simp_all
  have row: "row_of News example_world (req_id ?req) = Some ?x"
    by (simp add: example_world_def stored_def int4_def)
  have att: "req_file ?req = Some example_file"
    by simp
  have "remove_fault ?w1 = remove_fault example_world"
    by (subst uploadToSupabase_world [OF example_upload]) simp
  then have rf: "\<not> remove_fault ?w1"
    by (simp add: example_world_def)
  have ok: "fst (delete_if_set example_env (media_of ?x) ?w1) = Inr ()"
    using rf by (simp add: delete_if_set_def truthy_def deleteFromSupabase_cases example_old_path)
  have date: "new_Date example_env (req_body ?req ''publishedAt'') \<noteq> InvalidDate"
    by (simp add: example_date)
  have c: "calls example_world = []"
    by (simp add: example_world_def)
  from update_with_file [OF media h row att example_upload] ok date c
  show ?thesis
    by (auto simp: stored_def int4_def)
qed

text \<open>
  Claim C4 as stated fails in four ways, all at the news update with the file
  \<open>a b.png\<close>, whose upload is attempted in each and succeeds in the first three.
  \<^item> The storage service refuses the removal of the old file of news 2: the delete helper
    throws, the handler answers 500 and the row keeps the old URL instead of the one
    the upload returned.
  \<^item> The previous image of the row is the empty string, which is not \<open>null\<close>: no delete
    call is made.
  \<^item> The request for news 1 has no \<open>publishedAt\<close>: the handler answers 500 and the
    image of the row stays \<open>null\<close>, although the file is in the bucket.
  \<^item> The storage service refuses the upload: the handler answers 500, makes no delete
    call and the row keeps the old URL.
\<close>

theorem put_news_with_file_url_not_stored:
  "fst (uploadToSupabase example_env example_file (example_world\<lparr>remove_fault := True\<rparr>)) =
       Inr ''https://p.supabase.co/storage/v1/object/public/uploads/1234567-a%20b.png''
   \<and> fst (put_news example_env
       (example_request\<lparr>req_id := 2, req_body := [''publishedAt'' \<mapsto> ''2024-01-01''],
          req_file := Some example_file\<rparr>) (example_world\<lparr>remove_fault := True\<rparr>)) =
       Sent (Response 500 (JsonErrorDetails ''Failed to update news''
              (Error ''Failed to delete file from Supabase'')))
   \<and> map_option news_image (news_tbl (snd (put_news example_env
       (example_request\<lparr>req_id := 2, req_body := [''publishedAt'' \<mapsto> ''2024-01-01''],
          req_file := Some example_file\<rparr>) (example_world\<lparr>remove_fault := True\<rparr>))) 2) =
       Some (Some ''https://p.supabase.co/storage/v1/object/public/uploads/5-old.png'')
   \<and> fst (put_news example_env
       (example_request\<lparr>req_id := 3, req_body := [''publishedAt'' \<mapsto> ''2024-01-01''],
          req_file := Some example_file\<rparr>)
       (example_world\<lparr>news_tbl :=
          [3 \<mapsto> \<lparr>news_title = ''E'', news_description = ''F'', news_image = Some [],
                  news_publishedAt = 1704067200000\<rparr>]\<rparr>)) =
       Sent (Response 200 (JsonRow (NewsRow 3
         \<lparr>news_title = ''E'', news_description = ''F'',
          news_image =
            Some ''https://p.supabase.co/storage/v1/object/public/uploads/1234567-a%20b.png'',
          news_publishedAt = 1704067200000\<rparr>)))
   \<and> calls (snd (put_news example_env
       (example_request\<lparr>req_id := 3, req_body := [''publishedAt'' \<mapsto> ''2024-01-01''],
          req_file := Some example_file\<rparr>)
       (example_world\<lparr>news_tbl :=
          [3 \<mapsto> \<lparr>news_title = ''E'', news_description = ''F'', news_image = Some [],
                  news_publishedAt = 1704067200000\<rparr>]\<rparr>))) =
       [UploadCall example_file]
   \<and> fst (put_news example_env (example_request\<lparr>req_file := Some example_file\<rparr>)
          example_world) =
       Sent (Response 500 (JsonErrorDetails ''Failed to update news'' ValidationError))
   \<and> map_option news_image (news_tbl (snd (put_news example_env
          (example_request\<lparr>req_file := Some example_file\<rparr>) example_world)) 1) = Some None
   \<and> bucket (snd (put_news example_env
          (example_request\<lparr>req_file := Some example_file\<rparr>) example_world)) ''1234567-a b.png'' =
       Some (''PNG'', ''image/png'')
   \<and> fst (put_news example_env
       (example_request\<lparr>req_id := 2, req_body := [''publishedAt'' \<mapsto> ''2024-01-01''],
          req_file := Some example_file\<rparr>) (example_world\<lparr>upload_fault := True\<rparr>)) =
       Sent (Response 500 (JsonErrorDetails ''Failed to update news''
              (Error ''Failed to upload file to Supabase'')))
   \<and> calls (snd (put_news example_env
       (example_request\<lparr>req_id := 2, req_body := [''publishedAt'' \<mapsto> ''2024-01-01''],
          req_file := Some example_file\<rparr>) (example_world\<lparr>upload_fault := True\<rparr>))) =
       [UploadCall example_file]
   \<and> map_option news_image (news_tbl (snd (put_news example_env
       (example_request\<lparr>req_id := 2, req_body := [''publishedAt'' \<mapsto> ''2024-01-01''],
          req_file := Some example_file\<rparr>) (example_world\<lparr>upload_fault := True\<rparr>))) 2) =
       Some (Some ''https://p.supabase.co/storage/v1/object/public/uploads/5-old.png'')"
proof -
  let ?url = "''https://p.supabase.co/storage/v1/object/public/uploads/1234567-a%20b.png''"
  let ?old = "''https://p.supabase.co/storage/v1/object/public/uploads/5-old.png''"
  let ?req2 = "example_request\<lparr>req_id := 2, req_body := [''publishedAt'' \<mapsto> ''2024-01-01''],
          req_file := Some example_file\<rparr>"
  let ?req3 = "example_request\<lparr>req_id := 3, req_body := [''publishedAt'' \<mapsto> ''2024-01-01''],
          req_file := Some example_file\<rparr>"
  let ?req1 = "example_request\<lparr>req_file := Some example_file\<rparr>"
  let ?wa = "example_world\<lparr>remove_fault := True\<rparr>"
  let ?wb = "example_world\<lparr>news_tbl :=
          [3 \<mapsto> \<lparr>news_title = ''E'', news_description = ''F'', news_image = Some [],
                  news_publishedAt = 1704067200000\<rparr>]\<rparr>"
  let ?wd = "example_world\<lparr>upload_fault := True\<rparr>"
  have upa: "uploadToSupabase example_env example_file ?wa =
      (Inr ?url, ?wa\<lparr>calls := calls ?wa @ [UploadCall example_file],
          bucket := (bucket ?wa)(''1234567-a b.png'' \<mapsto> (''PNG'', ''image/png''))\<rparr>)"
    by (rule example_upload_at) (simp_all add: example_world_def)
  have upb: "uploadToSupabase example_env example_file ?wb =
      (Inr ?url, ?wb\<lparr>calls := calls ?wb @ [UploadCall example_file],
          bucket := (bucket ?wb)(''1234567-a b.png'' \<mapsto> (''PNG'', ''image/png''))\<rparr>)"
    by (rule example_upload_at) (simp_all add: example_world_def)
  have upc: "uploadToSupabase example_env example_file example_world =
      (Inr ?url, example_world\<lparr>calls := calls example_world @ [UploadCall example_file],
          bucket := (bucket example_world)(''1234567-a b.png'' \<mapsto> (''PNG'', ''image/png''))\<rparr>)"
    by (rule example_upload_at) (simp_all add: example_world_def)
  have upd: "uploadToSupabase example_env example_file ?wd =
      (Inl (Error ''Failed to upload file to Supabase''),
       ?wd\<lparr>calls := calls ?wd @ [UploadCall example_file]\<rparr>)"
    by (simp add: uploadToSupabase_cases)
  have row2: "news_tbl example_world 2 = Some \<lparr>news_title = ''C'', news_description = ''D'',
      news_image = Some ?old, news_publishedAt = 1704067200000\<rparr>"
    and row1: "news_tbl example_world 1 = Some \<lparr>news_title = ''A'', news_description = ''B'',
      news_image = None, news_publishedAt = 1704067200000\<rparr>"
    and c: "calls example_world = []"
    by (simp_all add: example_world_def)
  have a: "put_news example_env ?req2 ?wa =
      (Sent (Response 500 (JsonErrorDetails ''Failed to update news''
              (Error ''Failed to delete file from Supabase''))),
       ?wa\<lparr>calls := [UploadCall example_file, DeleteCall ?old],
          bucket := (bucket ?wa)(''1234567-a b.png'' \<mapsto> (''PNG'', ''image/png''))\<rparr>)"
    by (simp add: put_news_def findUnique_def int4_def upload_replacing_def upa row2 c
        delete_if_set_def truthy_def deleteFromSupabase_cases example_old_path failure_def)
  have b: "put_news example_env ?req3 ?wb =
      (Sent (Response 200 (JsonRow (NewsRow 3
         \<lparr>news_title = ''E'', news_description = ''F'', news_image = Some ?url,
          news_publishedAt = 1704067200000\<rparr>))),
       ?wb\<lparr>calls := [UploadCall example_file],
          bucket := (bucket ?wb)(''1234567-a b.png'' \<mapsto> (''PNG'', ''image/png'')),
          news_tbl := [3 \<mapsto> \<lparr>news_title = ''E'', news_description = ''F'',
             news_image = Some ?url, news_publishedAt = 1704067200000\<rparr>]\<rparr>)"
    by (simp add: put_news_def findUnique_def int4_def upload_replacing_def upb c
        delete_if_set_def truthy_def example_date ok_row_def js_or_def upd_def Let_def)
  have cc: "put_news example_env ?req1 example_world =
      (Sent (Response 500 (JsonErrorDetails ''Failed to update news'' ValidationError)),
       example_world\<lparr>calls := [UploadCall example_file],
          bucket := (bucket example_world)(''1234567-a b.png'' \<mapsto> (''PNG'', ''image/png''))\<rparr>)"
    by (simp add: put_news_def findUnique_def int4_def upload_replacing_def upc row1 c
        delete_if_set_def example_request_def new_Date_def failure_def)
  have d: "put_news example_env ?req2 ?wd =
      (Sent (Response 500 (JsonErrorDetails ''Failed to update news''
              (Error ''Failed to upload file to Supabase''))),
       ?wd\<lparr>calls := [UploadCall example_file]\<rparr>)"
    by (simp add: put_news_def findUnique_def int4_def upload_replacing_def upd row2 c
        failure_def)
  show ?thesis
    unfolding a b cc d by (simp add: upa row1 row2)
qed

section \<open>Updates that carry no file\<close>

text \<open>
  Each update handler, on an existing row and a request without a file.
\<close>

lemma put_news_without_file:
  assumes ok: "int4 (req_id req)" and row: "news_tbl w (req_id req) = Some x"
    and att: "req_file req = None"
  shows "new_Date E (req_body req ''publishedAt'') = InvalidDate \<Longrightarrow>
         put_news E req w = (failure ''Failed to update news'' ValidationError, w)"
    and "new_Date E (req_body req ''publishedAt'') = ValidDate d \<Longrightarrow>
         \<exists>y. put_news E req w =
               (Sent (Response 200 (JsonRow (NewsRow (req_id req) y))),
                w\<lparr>news_tbl := (news_tbl w)(req_id req \<mapsto> y)\<rparr>)
            \<and> news_image y = news_image x
            \<and> news_publishedAt y = d
            \<and> text_fields (NewsRow (req_id req) y) =
                map (\<lambda>(k, v). (k, upd (req_body req k) v)) (text_fields (NewsRow (req_id req) x))"
  by (simp_all add: put_news_def findUnique_def ok row att upload_replacing_None ok_row_def Let_def js_or_def
      truthy_def)

lemma put_hero_without_file:
  assumes ok: "int4 (req_id req)" and row: "hero_tbl w (req_id req) = Some x"
    and att: "req_file req = None"
  shows "\<exists>y. put_hero E req w =
               (Sent (Response 200 (JsonRow (HeroRow (req_id req) y))),
                w\<lparr>hero_tbl := (hero_tbl w)(req_id req \<mapsto> y)\<rparr>)
            \<and> Some (hero_image y) = Some (hero_image x)
            \<and> text_fields (HeroRow (req_id req) y) =
                map (\<lambda>(k, v). (k, upd (req_body req k) v)) (text_fields (HeroRow (req_id req) x))"
  by (simp add: put_hero_def findUnique_def ok row att upload_replacing_None ok_row_def Let_def js_or_def
      truthy_def)

lemma put_extracurricular_without_file:
  assumes ok: "int4 (req_id req)" and row: "extracurricular_tbl w (req_id req) = Some x"
    and att: "req_file req = None"
  shows "\<exists>y. put_extracurricular E req w =
               (Sent (Response 200 (JsonRow (ExtracurricularRow (req_id req) y))),
                w\<lparr>extracurricular_tbl := (extracurricular_tbl w)(req_id req \<mapsto> y)\<rparr>)
            \<and> ex_image y = ex_image x
            \<and> text_fields (ExtracurricularRow (req_id req) y) =
                map (\<lambda>(k, v). (k, upd (req_body req k) v)) (text_fields (ExtracurricularRow (req_id req) x))"
  by (simp add: put_extracurricular_def findUnique_def ok row att upload_replacing_None ok_row_def Let_def js_or_def
      truthy_def)

lemma put_kalender_without_file:
  assumes ok: "int4 (req_id req)" and row: "kalender_tbl w (req_id req) = Some x"
    and att: "req_file req = None"
  shows "\<exists>y. put_kalender E req w =
               (Sent (Response 200 (JsonRow (KalenderRow (req_id req) y))),
                w\<lparr>kalender_tbl := (kalender_tbl w)(req_id req \<mapsto> y)\<rparr>)
            \<and> Some (kal_file y) = Some (kal_file x)
            \<and> text_fields (KalenderRow (req_id req) y) =
                map (\<lambda>(k, v). (k, upd (req_body req k) v)) (text_fields (KalenderRow (req_id req) x))"
  by (simp add: put_kalender_def findUnique_def ok row att upload_replacing_None ok_row_def Let_def js_or_def
      truthy_def)

lemma put_alumni_without_file:
  assumes ok: "int4 (req_id req)" and row: "alumni_tbl w (req_id req) = Some x"
    and att: "req_file req = None"
  shows "\<exists>y. put_alumni E req w =
               (Sent (Response 200 (JsonRow (AlumniRow (req_id req) y))),
                w\<lparr>alumni_tbl := (alumni_tbl w)(req_id req \<mapsto> y)\<rparr>)
            \<and> al_image y = al_image x
            \<and> text_fields (AlumniRow (req_id req) y) =
                map (\<lambda>(k, v). (k, upd (req_body req k) v)) (text_fields (AlumniRow (req_id req) x))"
  by (simp add: put_alumni_def findUnique_def ok row att upload_replacing_None ok_row_def Let_def js_or_def
      truthy_def)

lemma put_galeri_without_file:
  assumes ok: "int4 (req_id req)" and row: "galeri_tbl w (req_id req) = Some x"
    and att: "req_file req = None"
  shows "\<exists>y. put_galeri E req w =
               (Sent (Response 200 (JsonRow (GaleriRow (req_id req) y))),
                w\<lparr>galeri_tbl := (galeri_tbl w)(req_id req \<mapsto> y)\<rparr>)
            \<and> Some (gal_image y) = Some (gal_image x)
            \<and> text_fields (GaleriRow (req_id req) y) =
                map (\<lambda>(k, v). (k, upd (req_body req k) v)) (text_fields (GaleriRow (req_id req) x))"
  by (simp add: put_galeri_def findUnique_def ok row att upload_replacing_None ok_row_def Let_def js_or_def
      truthy_def)

lemma put_sarana_without_file:
  assumes ok: "int4 (req_id req)" and row: "sarana_tbl w (req_id req) = Some x"
    and att: "req_file req = None"
  shows "\<exists>y. put_sarana E req w =
               (Sent (Response 200 (JsonRow (SaranaRow (req_id req) y))),
                w\<lparr>sarana_tbl := (sarana_tbl w)(req_id req \<mapsto> y)\<rparr>)
            \<and> sar_image y = sar_image x
            \<and> text_fields (SaranaRow (req_id req) y) =
                map (\<lambda>(k, v). (k, upd (req_body req k) v)) (text_fields (SaranaRow (req_id req) x))"
  by (simp add: put_sarana_def findUnique_def ok row att upload_replacing_None ok_row_def Let_def js_or_def
      truthy_def)

lemma put_headmaster_message_without_file:
  assumes ok: "int4 (req_id req)" and row: "headmaster_tbl w (req_id req) = Some x"
    and att: "req_file req = None"
  shows "\<exists>y. put_headmaster_message E req w =
               (Sent (Response 200 (JsonRow (HeadmasterRow (req_id req) y))),
                w\<lparr>headmaster_tbl := (headmaster_tbl w)(req_id req \<mapsto> y)\<rparr>)
            \<and> Some (hm_image y) = Some (hm_image x)
            \<and> text_fields (HeadmasterRow (req_id req) y) =
                map (\<lambda>(k, v). (k, upd (req_body req k) v)) (text_fields (HeadmasterRow (req_id req) x))"
  by (simp add: put_headmaster_message_def findUnique_def ok row att upload_replacing_None ok_row_def Let_def js_or_def
      truthy_def)

lemma put_sejarah_without_file:
  assumes ok: "int4 (req_id req)" and row: "sejarah_tbl w (req_id req) = Some x"
    and att: "req_file req = None"
  shows "\<exists>y. put_sejarah E req w =
               (Sent (Response 200 (JsonRow (SejarahRow (req_id req) y))),
                w\<lparr>sejarah_tbl := (sejarah_tbl w)(req_id req \<mapsto> y)\<rparr>)
            \<and> sej_image y = sej_image x
            \<and> text_fields (SejarahRow (req_id req) y) =
                map (\<lambda>(k, v). (k, upd (req_body req k) v)) (text_fields (SejarahRow (req_id req) x))"
  by (simp add: put_sejarah_def findUnique_def ok row att upload_replacing_None ok_row_def Let_def js_or_def
      truthy_def)

text \<open>
  Claim C10, as amended.  For every resource with a media field, an update of an existing
  row that carries no file calls neither blob helper, leaves the bucket alone and leaves
  the media field of the row as it was.  The news update without a valid \<open>publishedAt\<close>
  is answered 500 and changes nothing; every other update is answered 200 with the
  stored row, in which each text column has the submitted value where the body has one
  and its old value otherwise (and, for news, \<open>publishedAt\<close> is the submitted date).
\<close>

theorem update_without_file:
  assumes media: "has_media r" and h: "update_handler r = Some h"
    and row: "row_of r w (req_id req) = Some x" and att: "req_file req = None"
  shows "calls (snd (h E req w)) = calls w \<and> bucket (snd (h E req w)) = bucket w
       \<and> (\<exists>y. row_of r (snd (h E req w)) (req_id req) = Some y
              \<and> media_of y = media_of x
              \<and> (if r = News \<and> new_Date E (req_body req ''publishedAt'') = InvalidDate
                  then y = x
                     \<and> fst (h E req w) =
                         Sent (Response 500
                           (JsonErrorDetails ''Failed to update news'' ValidationError))
                  else fst (h E req w) = Sent (Response 200 (JsonRow y))
                     \<and> text_fields y =
                         map (\<lambda>(k, v). (k, case req_body req k of None \<Rightarrow> v | Some s \<Rightarrow> s))
                           (text_fields x)
                     \<and> (\<forall>i n. y = NewsRow i n \<longrightarrow>
                           new_Date E (req_body req ''publishedAt'') =
                             ValidDate (news_publishedAt n))))"
proof (cases r)
  case News
  from row News obtain x' where x: "x = NewsRow (req_id req) x'" "news_tbl w (req_id req) = Some x'"
    and ok: "int4 (req_id req)"
    by (auto simp: stored_def split: if_splits)
  from h News have hh: "h = put_news" by simp
  note l = put_news_without_file [OF ok x(2) att, of E]
  show ?thesis
  proof (cases "new_Date E (req_body req ''publishedAt'')")
    case InvalidDate
    then show ?thesis
      unfolding hh x(1) using l(1) x(2) by (simp add: News failure_def stored_def ok)
  next
    case (ValidDate d)
    from l(2) [OF ValidDate] obtain y where
      y: "put_news E req w =
            (Sent (Response 200 (JsonRow (NewsRow (req_id req) y))),
             w\<lparr>news_tbl := (news_tbl w)(req_id req \<mapsto> y)\<rparr>)"
         "news_image y = news_image x'" "news_publishedAt y = d"
         "text_fields (NewsRow (req_id req) y) =
            map (\<lambda>(k, v). (k, upd (req_body req k) v)) (text_fields (NewsRow (req_id req) x'))"
      by blast
    show ?thesis
      unfolding hh x(1) using y(2,3,4) ValidDate
      by (simp add: News y(1) upd_def stored_def ok)
  qed
next
  case Hero
  from row Hero obtain x' where x: "x = HeroRow (req_id req) x'" "hero_tbl w (req_id req) = Some x'"
    and ok: "int4 (req_id req)"
    by (auto simp: stored_def split: if_splits)
  from h Hero have hh: "h = put_hero" by simp
  from put_hero_without_file [OF ok x(2) att, of E] obtain y where
    y: "put_hero E req w =
          (Sent (Response 200 (JsonRow (HeroRow (req_id req) y))),
           w\<lparr>hero_tbl := (hero_tbl w)(req_id req \<mapsto> y)\<rparr>)"
       "Some (hero_image y) = Some (hero_image x')"
       "text_fields (HeroRow (req_id req) y) =
          map (\<lambda>(k, v). (k, upd (req_body req k) v)) (text_fields (HeroRow (req_id req) x'))"
    by blast
  show ?thesis
    unfolding hh x(1) using y(2,3)
    by (simp add: Hero y(1) upd_def stored_def ok)
next
  case Extracurriculars
  from row Extracurriculars obtain x' where x: "x = ExtracurricularRow (req_id req) x'" "extracurricular_tbl w (req_id req) = Some x'"
    and ok: "int4 (req_id req)"
    by (auto simp: stored_def split: if_splits)
  from h Extracurriculars have hh: "h = put_extracurricular" by simp
  from put_extracurricular_without_file [OF ok x(2) att, of E] obtain y where
    y: "put_extracurricular E req w =
          (Sent (Response 200 (JsonRow (ExtracurricularRow (req_id req) y))),
           w\<lparr>extracurricular_tbl := (extracurricular_tbl w)(req_id req \<mapsto> y)\<rparr>)"
       "ex_image y = ex_image x'"
       "text_fields (ExtracurricularRow (req_id req) y) =
          map (\<lambda>(k, v). (k, upd (req_body req k) v)) (text_fields (ExtracurricularRow (req_id req) x'))"
    by blast
  show ?thesis
    unfolding hh x(1) using y(2,3)
    by (simp add: Extracurriculars y(1) upd_def stored_def ok)
next
  case Kalender
  from row Kalender obtain x' where x: "x = KalenderRow (req_id req) x'" "kalender_tbl w (req_id req) = Some x'"
    and ok: "int4 (req_id req)"
    by (auto simp: stored_def split: if_splits)
  from h Kalender have hh: "h = put_kalender" by simp
  from put_kalender_without_file [OF ok x(2) att, of E] obtain y where
    y: "put_kalender E req w =
          (Sent (Response 200 (JsonRow (KalenderRow (req_id req) y))),
           w\<lparr>kalender_tbl := (kalender_tbl w)(req_id req \<mapsto> y)\<rparr>)"
       "Some (kal_file y) = Some (kal_file x')"
       "text_fields (KalenderRow (req_id req) y) =
          map (\<lambda>(k, v). (k, upd (req_body req k) v)) (text_fields (KalenderRow (req_id req) x'))"
    by blast
  show ?thesis
    unfolding hh x(1) using y(2,3)
    by (simp add: Kalender y(1) upd_def stored_def ok)
next
  case Alumni
  from row Alumni obtain x' where x: "x = AlumniRow (req_id req) x'" "alumni_tbl w (req_id req) = Some x'"
    and ok: "int4 (req_id req)"
    by (auto simp: stored_def split: if_splits)
  from h Alumni have hh: "h = put_alumni" by simp
  from put_alumni_without_file [OF ok x(2) att, of E] obtain y where
    y: "put_alumni E req w =
          (Sent (Response 200 (JsonRow (AlumniRow (req_id req) y))),
           w\<lparr>alumni_tbl := (alumni_tbl w)(req_id req \<mapsto> y)\<rparr>)"
       "al_image y = al_image x'"
       "text_fields (AlumniRow (req_id req) y) =
          map (\<lambda>(k, v). (k, upd (req_body req k) v)) (text_fields (AlumniRow (req_id req) x'))"
    by blast
  show ?thesis
    unfolding hh x(1) using y(2,3)
    by (simp add: Alumni y(1) upd_def stored_def ok)
next
  case Galeri
  from row Galeri obtain x' where x: "x = GaleriRow (req_id req) x'" "galeri_tbl w (req_id req) = Some x'"
    and ok: "int4 (req_id req)"
    by (auto simp: stored_def split: if_splits)
  from h Galeri have hh: "h = put_galeri" by simp
  from put_galeri_without_file [OF ok x(2) att, of E] obtain y where
    y: "put_galeri E req w =
          (Sent (Response 200 (JsonRow (GaleriRow (req_id req) y))),
           w\<lparr>galeri_tbl := (galeri_tbl w)(req_id req \<mapsto> y)\<rparr>)"
       "Some (gal_image y) = Some (gal_image x')"
       "text_fields (GaleriRow (req_id req) y) =
          map (\<lambda>(k, v). (k, upd (req_body req k) v)) (text_fields (GaleriRow (req_id req) x'))"
    by blast
  show ?thesis
    unfolding hh x(1) using y(2,3)
    by (simp add: Galeri y(1) upd_def stored_def ok)
next
  case Sarana
  from row Sarana obtain x' where x: "x = SaranaRow (req_id req) x'" "sarana_tbl w (req_id req) = Some x'"
    and ok: "int4 (req_id req)"
    by (auto simp: stored_def split: if_splits)
  from h Sarana have hh: "h = put_sarana" by simp
  from put_sarana_without_file [OF ok x(2) att, of E] obtain y where
    y: "put_sarana E req w =
          (Sent (Response 200 (JsonRow (SaranaRow (req_id req) y))),
           w\<lparr>sarana_tbl := (sarana_tbl w)(req_id req \<mapsto> y)\<rparr>)"
       "sar_image y = sar_image x'"
       "text_fields (SaranaRow (req_id req) y) =
          map (\<lambda>(k, v). (k, upd (req_body req k) v)) (text_fields (SaranaRow (req_id req) x'))"
    by blast
  show ?thesis
    unfolding hh x(1) using y(2,3)
    by (simp add: Sarana y(1) upd_def stored_def ok)
next
  case HeadmasterMessage
  from row HeadmasterMessage obtain x' where x: "x = HeadmasterRow (req_id req) x'" "headmaster_tbl w (req_id req) = Some x'"
    and ok: "int4 (req_id req)"
    by (auto simp: stored_def split: if_splits)
  from h HeadmasterMessage have hh: "h = put_headmaster_message" by simp
  from put_headmaster_message_without_file [OF ok x(2) att, of E] obtain y where
    y: "put_headmaster_message E req w =
          (Sent (Response 200 (JsonRow (HeadmasterRow (req_id req) y))),
           w\<lparr>headmaster_tbl := (headmaster_tbl w)(req_id req \<mapsto> y)\<rparr>)"
       "Some (hm_image y) = Some (hm_image x')"
       "text_fields (HeadmasterRow (req_id req) y) =
          map (\<lambda>(k, v). (k, upd (req_body req k) v)) (text_fields (HeadmasterRow (req_id req) x'))"
    by blast
  show ?thesis
    unfolding hh x(1) using y(2,3)
    by (simp add: HeadmasterMessage y(1) upd_def stored_def ok)
next
  case Sejarah
  from row Sejarah obtain x' where x: "x = SejarahRow (req_id req) x'" "sejarah_tbl w (req_id req) = Some x'"
    and ok: "int4 (req_id req)"
    by (auto simp: stored_def split: if_splits)
  from h Sejarah have hh: "h = put_sejarah" by simp
  from put_sejarah_without_file [OF ok x(2) att, of E] obtain y where
    y: "put_sejarah E req w =
          (Sent (Response 200 (JsonRow (SejarahRow (req_id req) y))),
           w\<lparr>sejarah_tbl := (sejarah_tbl w)(req_id req \<mapsto> y)\<rparr>)"
       "sej_image y = sej_image x'"
       "text_fields (SejarahRow (req_id req) y) =
          map (\<lambda>(k, v). (k, upd (req_body req k) v)) (text_fields (SejarahRow (req_id req) x'))"
    by blast
  show ?thesis
    unfolding hh x(1) using y(2,3)
    by (simp add: Sejarah y(1) upd_def stored_def ok)
next
  case VisiMisi
  with media show ?thesis by simp
next
  case Contacts
  with media show ?thesis by simp
qed

text \<open>
  The amended claim at the example: news 1 gets a new title and keeps its (null) image.
\<close>

theorem update_without_file_witness:
  "fst (put_news example_env
       (example_request\<lparr>req_body := [''title'' \<mapsto> ''New'', ''publishedAt'' \<mapsto> ''2024-01-01'']\<rparr>)
       example_world) =
     Sent (Response 200 (JsonRow (NewsRow 1
       \<lparr>news_title = ''New'', news_description = ''B'', news_image = None,
        news_publishedAt = 1704067200000\<rparr>)))
   \<and> calls (snd (put_news example_env
       (example_request\<lparr>req_body := [''title'' \<mapsto> ''New'', ''publishedAt'' \<mapsto> ''2024-01-01'']\<rparr>)
       example_world)) = []"
proof -
  let ?req = "example_request\<lparr>req_body := [''title'' \<mapsto> ''New'', ''publishedAt'' \<mapsto> ''2024-01-01'']\<rparr>"
  let ?x = "NewsRow 1 \<lparr>news_title = ''A'', news_description = ''B'', news_image = None,
                news_publishedAt = 1704067200000\<rparr>"
  have media: "has_media News" and h: "update_handler News = Some put_news"
    by simp_all
  have i: "req_id ?req = 1"
    by (simp add: example_request_def)
  have row: "row_of News example_world (req_id ?req) = Some ?x"
    by (simp add: example_world_def i stored_def int4_def)
  have att: "req_file ?req = None"
    by (simp add: example_request_def)
  have date: "new_Date example_env (req_body ?req ''publishedAt'') = ValidDate 1704067200000"
    by (simp add: example_date)
  have c: "calls example_world = []"
    by (simp add: example_world_def)
  from update_without_file [OF media h row att, of example_env]
  obtain y where y: "calls (snd (put_news example_env ?req example_world)) = calls example_world"
    "row_of News (snd (put_news example_env ?req example_world)) (req_id ?req) = Some y"
    "media_of y = media_of ?x"
    "fst (put_news example_env ?req example_world) = Sent (Response 200 (JsonRow y))"
    "text_fields y =
       map (\<lambda>(k, v). (k, case req_body ?req k of None \<Rightarrow> v | Some s \<Rightarrow> s)) (text_fields ?x)"
    "\<forall>i n. y = NewsRow i n \<longrightarrow>
       new_Date example_env (req_body ?req ''publishedAt'') = ValidDate (news_publishedAt n)"
    unfolding date by auto
  from y(2) obtain n where n: "y = NewsRow 1 n"
    unfolding i by auto
  have "n = \<lparr>news_title = ''New'', news_description = ''B'', news_image = None,
        news_publishedAt = 1704067200000\<rparr>"
    using y(3,5,6) unfolding n date by (cases n) simp
  with y(1,4) c n show ?thesis
    by simp
qed

text \<open>
  Claim C10 as stated fails for a news update that submits a title but no
  \<open>publishedAt\<close>: \<open>new Date(undefined)\<close> is invalid, the update is rejected with 500 and
  the submitted title is not stored.
\<close>

theorem put_news_without_date_keeps_title:
  "req_file (example_request\<lparr>req_body := [''title'' \<mapsto> ''New'']\<rparr>) = None
   \<and> req_body (example_request\<lparr>req_body := [''title'' \<mapsto> ''New'']\<rparr>) ''title'' = Some ''New''
   \<and> fst (put_news example_env (example_request\<lparr>req_body := [''title'' \<mapsto> ''New'']\<rparr>)
          example_world) =
       Sent (Response 500 (JsonErrorDetails ''Failed to update news'' ValidationError))
   \<and> map_option news_title (news_tbl (snd (put_news example_env
          (example_request\<lparr>req_body := [''title'' \<mapsto> ''New'']\<rparr>) example_world)) 1) =
       Some ''A''"
proof -
  have row: "news_tbl example_world 1 = Some \<lparr>news_title = ''A'', news_description = ''B'',
      news_image = None, news_publishedAt = 1704067200000\<rparr>"
    by (simp add: example_world_def)
  show ?thesis
    by (simp add: put_news_def findUnique_def int4_def example_request_def row
        upload_replacing_None new_Date_def failure_def)
qed

end
